theory Spec2Isabelle
  imports Main "HOL-Library.Word"
begin

unbundle bit_operations_syntax

section \<open>The CUDA driver of pocl: data model\<close>

text \<open>
  The embedding follows \<^verbatim>\<open>lib/CL/devices/cuda/pocl-cuda.c\<close>, built for a 64-bit host:
  \<^verbatim>\<open>void *\<close>, \<^verbatim>\<open>CUdeviceptr\<close> and \<^verbatim>\<open>size_t\<close> are 64-bit words, so pointer
  arithmetic such as \<^verbatim>\<open>device_ptr + offset\<close> wraps as the machine does; \<^verbatim>\<open>unsigned\<close>
  is a 32-bit word. The null pointer is the word 0.
\<close>

type_synonym ptr = "64 word"
type_synonym size_t = "64 word"
type_synonym unsigned = "32 word"

abbreviation NULL :: ptr where
  "NULL \<equiv> 0"

text \<open>
  The result codes of the driver API. The source distinguishes only success and
  \<^verbatim>\<open>CUDA_ERROR_HOST_MEMORY_ALREADY_REGISTERED\<close>; every other code is carried by number.
\<close>

datatype CUresult =
    CUDA_SUCCESS
  | CUDA_ERROR_HOST_MEMORY_ALREADY_REGISTERED
  | CUDA_ERROR_OTHER nat

datatype CUmemorytype =
    CU_MEMORYTYPE_ZERO \<comment> \<open>the value left by the initialiser \<^verbatim>\<open>{ 0 }\<close>\<close>
  | CU_MEMORYTYPE_HOST
  | CU_MEMORYTYPE_DEVICE

record CUDA_MEMCPY3D =
  srcXInBytes :: size_t
  srcY :: size_t
  srcZ :: size_t
  srcLOD :: size_t
  srcMemoryType :: CUmemorytype
  srcHost :: ptr
  srcDevice :: ptr
  srcArray :: ptr
  srcPitch :: size_t
  srcHeight :: size_t
  dstXInBytes :: size_t
  dstY :: size_t
  dstZ :: size_t
  dstLOD :: size_t
  dstMemoryType :: CUmemorytype
  dstHost :: ptr
  dstDevice :: ptr
  dstArray :: ptr
  dstPitch :: size_t
  dstHeight :: size_t
  WidthInBytes :: size_t
  Height :: size_t
  Depth :: size_t

text \<open>The initialiser \<^verbatim>\<open>CUDA_MEMCPY3D params = { 0 }\<close>.\<close>

definition zero_CUDA_MEMCPY3D :: CUDA_MEMCPY3D where
  "zero_CUDA_MEMCPY3D =
     \<lparr>srcXInBytes = 0, srcY = 0, srcZ = 0, srcLOD = 0,
      srcMemoryType = CU_MEMORYTYPE_ZERO, srcHost = NULL, srcDevice = 0, srcArray = NULL,
      srcPitch = 0, srcHeight = 0,
      dstXInBytes = 0, dstY = 0, dstZ = 0, dstLOD = 0,
      dstMemoryType = CU_MEMORYTYPE_ZERO, dstHost = NULL, dstDevice = 0, dstArray = NULL,
      dstPitch = 0, dstHeight = 0,
      WidthInBytes = 0, Height = 0, Depth = 0\<rparr>"

text \<open>
  The three ways an entry point can end other than by returning: \<^verbatim>\<open>POCL_ABORT\<close>
  (reached directly or through \<^verbatim>\<open>CUDA_CHECK\<close>), an integer division whose divisor is
  zero (undefined in C: no value is produced), and a write past the end of a
  fixed-size character buffer.
\<close>

datatype error = ABORT | DIVISION_BY_ZERO | BUFFER_OVERFLOW

section \<open>The environment: driver, C library and pocl helpers\<close>

text \<open>
  Every call that leaves the file and has an effect there (on the driver, the heap,
  the disk or the command) is recorded, in order, in a trace; pure queries
  (\<^verbatim>\<open>pocl_exists\<close>, the cache path, the device index) are not. What such a
  call answers is not decided by the file, so the answers are parameters: the record
  \<open>env\<close> gives, for each call whose result the source reads, the result for the
  given arguments. Calls whose result the source ignores
  (\<^verbatim>\<open>cuCtxSetCurrent\<close>, \<^verbatim>\<open>cuMemFree\<close>, \<^verbatim>\<open>cuMemFreeHost\<close>, \<^verbatim>\<open>free\<close>) appear in the
  trace only. The calls \<^verbatim>\<open>cuGetErrorName\<close> and \<^verbatim>\<open>cuGetErrorString\<close>, made only to
  print a message on a failure path, are not traced. The helpers \<^verbatim>\<open>pocl_exists\<close>,
  \<^verbatim>\<open>pocl_ptx_gen\<close>, \<^verbatim>\<open>pocl_cl_device_to_index\<close> and
  \<^verbatim>\<open>pocl_cache_work_group_function_path\<close> and the constant
  \<^verbatim>\<open>POCL_FILENAME_LENGTH\<close> are declared in other files of pocl: they are
  parameters of the same record. Programs, devices and contexts are named by numbers.
\<close>

datatype pocl_argument_type =
    POCL_ARG_TYPE_NONE
  | POCL_ARG_TYPE_POINTER
  | POCL_ARG_TYPE_IMAGE
  | POCL_ARG_TYPE_SAMPLER

record pocl_argument_info =
  type :: pocl_argument_type
  is_local :: bool

text \<open>
  A kernel. The field \<^verbatim>\<open>data\<close> of the source, which caches the \<^verbatim>\<open>CUfunction\<close>,
  is \<open>kernel_data\<close> here (the device has a field \<^verbatim>\<open>data\<close> too). The arrays
  \<^verbatim>\<open>arg_info\<close> and \<^verbatim>\<open>arguments\<close> are C pointers, read at any index: functions of
  the index. The counts \<^verbatim>\<open>num_args\<close> and \<^verbatim>\<open>num_locals\<close> are natural numbers: the
  source never lets them wrap.
\<close>

record cl_kernel =
  name :: string
  program :: nat
  kernel_data :: ptr
  num_args :: nat
  num_locals :: nat
  arg_info :: "nat \<Rightarrow> pocl_argument_info"

record pocl_cuda_device_data =
  device :: nat
  cuda_context :: nat

record cl_device =
  dev_id :: nat
  global_mem_id :: nat
  data :: pocl_cuda_device_data
  llvm_cpu :: string

text \<open>
  A residency slot (\<^verbatim>\<open>pocl_mem_identifier\<close>): its field \<^verbatim>\<open>global_mem_id\<close> is
  \<open>slot_global_mem_id\<close> here.
\<close>

record pocl_mem_identifier =
  mem_ptr :: ptr
  slot_global_mem_id :: nat

record cl_mem =
  flags :: "64 word"
  mem_size :: size_t \<comment> \<open>the field \<^verbatim>\<open>size\<close>\<close>
  mem_host_ptr :: ptr
  device_ptrs :: "nat \<Rightarrow> pocl_mem_identifier"

definition CL_MEM_USE_HOST_PTR :: "64 word" where
  "CL_MEM_USE_HOST_PTR = push_bit 3 1"

definition CL_MEM_ALLOC_HOST_PTR :: "64 word" where
  "CL_MEM_ALLOC_HOST_PTR = push_bit 4 1"

definition CL_MEM_COPY_HOST_PTR :: "64 word" where
  "CL_MEM_COPY_HOST_PTR = push_bit 5 1"

definition CL_SUCCESS :: int where
  "CL_SUCCESS = 0"

definition CL_MEM_OBJECT_ALLOCATION_FAILURE :: int where
  "CL_MEM_OBJECT_ALLOCATION_FAILURE = - 4"

text \<open>
  What the launch receives for one argument: \<^verbatim>\<open>params[i]\<close> points to the storage the
  driver reads the argument from.
\<close>

datatype param =
    PARAM_VALUE ptr \<comment> \<open>\<^verbatim>\<open>arguments[i].value\<close>\<close>
  | PARAM_SHARED_OFFSET nat \<comment> \<open>\<^verbatim>\<open>sharedMemOffsets + i\<close>\<close>
  | PARAM_DEVICE_PTR ptr nat \<comment> \<open>\<^verbatim>\<open>&mem->device_ptrs[dev_id].mem_ptr\<close>, \<open>mem\<close> read at the given address\<close>
  | PARAM_NULL \<comment> \<open>\<^verbatim>\<open>&null\<close>\<close>

datatype event_status = SUBMITTED | RUNNING | COMPLETE

datatype call =
    Call_cuCtxSetCurrent nat
  | Call_cuMemAlloc size_t
  | Call_cuMemHostRegister ptr size_t
  | Call_cuMemHostGetDevicePointer ptr
  | Call_cuMemHostAlloc size_t
  | Call_cuMemcpyHtoD ptr ptr size_t \<comment> \<open>device destination, host source, byte count\<close>
  | Call_cuMemcpyDtoH ptr ptr size_t \<comment> \<open>host destination, device source, byte count\<close>
  | Call_cuMemcpyDtoD ptr ptr size_t \<comment> \<open>destination, source, byte count\<close>
  | Call_cuMemcpy3D CUDA_MEMCPY3D
  | Call_cuMemFreeHost ptr
  | Call_cuMemFree ptr
  | Call_cuModuleLoad string
  | Call_cuModuleGetFunction ptr string
  | Call_cuLaunchKernel ptr "unsigned \<times> unsigned \<times> unsigned"
      "unsigned \<times> unsigned \<times> unsigned" unsigned "param option list" "unsigned option list"
    \<comment> \<open>function, grid and block dimensions as the \<^verbatim>\<open>unsigned int\<close> parameters receive
        them, \<^verbatim>\<open>sharedMemBytes\<close>, then the arrays
        \<^verbatim>\<open>params\<close> and \<^verbatim>\<open>sharedMemOffsets\<close> (which entries of \<^verbatim>\<open>params\<close> point
        into), entry by entry; \<open>None\<close> is an entry never written\<close>
  | Call_malloc size_t
  | Call_free ptr
  | Call_pocl_ptx_gen string string string string
  | Call_pocl_exec_command
  | Call_pocl_ndrange_node_cleanup
  | Call_POCL_UPDATE_EVENT event_status

record env =
  cuMemAlloc :: "size_t \<Rightarrow> CUresult \<times> ptr"
  cuMemHostRegister :: "ptr \<Rightarrow> size_t \<Rightarrow> CUresult"
  cuMemHostGetDevicePointer :: "ptr \<Rightarrow> CUresult \<times> ptr"
  cuMemHostAlloc :: "size_t \<Rightarrow> CUresult \<times> ptr"
  cuMemcpyHtoD :: "ptr \<Rightarrow> ptr \<Rightarrow> size_t \<Rightarrow> CUresult"
  cuMemcpyDtoH :: "ptr \<Rightarrow> ptr \<Rightarrow> size_t \<Rightarrow> CUresult"
  cuMemcpyDtoD :: "ptr \<Rightarrow> ptr \<Rightarrow> size_t \<Rightarrow> CUresult"
  cuMemcpy3D :: "CUDA_MEMCPY3D \<Rightarrow> CUresult"
  cuModuleLoad :: "string \<Rightarrow> CUresult \<times> ptr"
  cuModuleGetFunction :: "ptr \<Rightarrow> string \<Rightarrow> CUresult \<times> ptr"
  cuLaunchKernel :: "ptr \<Rightarrow> unsigned \<Rightarrow> param option list \<Rightarrow> CUresult"
  malloc :: "size_t \<Rightarrow> ptr"
  pocl_exists :: "string \<Rightarrow> bool"
  pocl_ptx_gen :: "string \<Rightarrow> string \<Rightarrow> string \<Rightarrow> string \<Rightarrow> int"
  pocl_cl_device_to_index :: "nat \<Rightarrow> cl_device \<Rightarrow> nat"
  pocl_cache_work_group_function_path ::
    "nat \<Rightarrow> nat \<Rightarrow> cl_kernel \<Rightarrow> nat \<Rightarrow> nat \<Rightarrow> nat \<Rightarrow> string"
  POCL_FILENAME_LENGTH :: nat

type_synonym 'a exec = "(error + 'a) \<times> call list"

text \<open>\<^verbatim>\<open>pocl_cuda_abort_on_error\<close>, called through the macro \<^verbatim>\<open>CUDA_CHECK\<close>.\<close>

definition pocl_cuda_abort_on_error :: "CUresult \<Rightarrow> error + unit" where
  "pocl_cuda_abort_on_error result =
     (if result \<noteq> CUDA_SUCCESS then Inl ABORT else Inr ())"

abbreviation CUDA_CHECK :: "CUresult \<Rightarrow> error + unit" where
  "CUDA_CHECK result \<equiv> pocl_cuda_abort_on_error result"

section \<open>Copy engine\<close>

definition pocl_cuda_read :: "env \<Rightarrow> ptr \<Rightarrow> ptr \<Rightarrow> size_t \<Rightarrow> size_t \<Rightarrow> unit exec" where
  "pocl_cuda_read e host_ptr device_ptr offset cb =
     (let result = cuMemcpyDtoH e host_ptr (device_ptr + offset) cb
      in (CUDA_CHECK result, [Call_cuMemcpyDtoH host_ptr (device_ptr + offset) cb]))"

definition pocl_cuda_write :: "env \<Rightarrow> ptr \<Rightarrow> ptr \<Rightarrow> size_t \<Rightarrow> size_t \<Rightarrow> unit exec" where
  "pocl_cuda_write e host_ptr device_ptr offset cb =
     (let result = cuMemcpyHtoD e (device_ptr + offset) host_ptr cb
      in (CUDA_CHECK result, [Call_cuMemcpyHtoD (device_ptr + offset) host_ptr cb]))"

definition pocl_cuda_copy ::
  "env \<Rightarrow> ptr \<Rightarrow> size_t \<Rightarrow> ptr \<Rightarrow> size_t \<Rightarrow> size_t \<Rightarrow> unit exec" where
  "pocl_cuda_copy e src_ptr src_offset dst_ptr dst_offset cb =
     (if src_ptr = dst_ptr then (Inr (), [])
      else
        let result = cuMemcpyDtoD e (dst_ptr + dst_offset) (src_ptr + src_offset) cb
        in (CUDA_CHECK result,
            [Call_cuMemcpyDtoD (dst_ptr + dst_offset) (src_ptr + src_offset) cb]))"

text \<open>
  The rectangular transfers. The two quotients \<^verbatim>\<open>slice_pitch / row_pitch\<close> are
  evaluated with no test of the divisor; a zero divisor ends the call in
  \<open>DIVISION_BY_ZERO\<close> before the driver is reached.
\<close>

definition pocl_cuda_read_rect ::
  "env \<Rightarrow> ptr \<Rightarrow> ptr \<Rightarrow> (nat \<Rightarrow> size_t) \<Rightarrow> (nat \<Rightarrow> size_t) \<Rightarrow> (nat \<Rightarrow> size_t) \<Rightarrow>
   size_t \<Rightarrow> size_t \<Rightarrow> size_t \<Rightarrow> size_t \<Rightarrow> unit exec" where
  "pocl_cuda_read_rect e host_ptr device_ptr buffer_origin host_origin region
     buffer_row_pitch buffer_slice_pitch host_row_pitch host_slice_pitch =
     (if host_row_pitch = 0 then (Inl DIVISION_BY_ZERO, [])
      else if buffer_row_pitch = 0 then (Inl DIVISION_BY_ZERO, [])
      else
        let params = zero_CUDA_MEMCPY3D
              \<lparr>WidthInBytes := region 0,
               Height := region 1,
               Depth := region 2,
               dstMemoryType := CU_MEMORYTYPE_HOST,
               dstHost := host_ptr,
               dstXInBytes := host_origin 0,
               dstY := host_origin 1,
               dstZ := host_origin 2,
               dstPitch := host_row_pitch,
               dstHeight := host_slice_pitch div host_row_pitch,
               srcMemoryType := CU_MEMORYTYPE_DEVICE,
               srcDevice := device_ptr,
               srcXInBytes := buffer_origin 0,
               srcY := buffer_origin 1,
               srcZ := buffer_origin 2,
               srcPitch := buffer_row_pitch,
               srcHeight := buffer_slice_pitch div buffer_row_pitch\<rparr>;
            result = cuMemcpy3D e params
        in (CUDA_CHECK result, [Call_cuMemcpy3D params]))"

definition pocl_cuda_write_rect ::
  "env \<Rightarrow> ptr \<Rightarrow> ptr \<Rightarrow> (nat \<Rightarrow> size_t) \<Rightarrow> (nat \<Rightarrow> size_t) \<Rightarrow> (nat \<Rightarrow> size_t) \<Rightarrow>
   size_t \<Rightarrow> size_t \<Rightarrow> size_t \<Rightarrow> size_t \<Rightarrow> unit exec" where
  "pocl_cuda_write_rect e host_ptr device_ptr buffer_origin host_origin region
     buffer_row_pitch buffer_slice_pitch host_row_pitch host_slice_pitch =
     (if host_row_pitch = 0 then (Inl DIVISION_BY_ZERO, [])
      else if buffer_row_pitch = 0 then (Inl DIVISION_BY_ZERO, [])
      else
        let params = zero_CUDA_MEMCPY3D
              \<lparr>WidthInBytes := region 0,
               Height := region 1,
               Depth := region 2,
               srcMemoryType := CU_MEMORYTYPE_HOST,
               srcHost := host_ptr,
               srcXInBytes := host_origin 0,
               srcY := host_origin 1,
               srcZ := host_origin 2,
               srcPitch := host_row_pitch,
               srcHeight := host_slice_pitch div host_row_pitch,
               dstMemoryType := CU_MEMORYTYPE_DEVICE,
               dstDevice := device_ptr,
               dstXInBytes := buffer_origin 0,
               dstY := buffer_origin 1,
               dstZ := buffer_origin 2,
               dstPitch := buffer_row_pitch,
               dstHeight := buffer_slice_pitch div buffer_row_pitch\<rparr>;
            result = cuMemcpy3D e params
        in (CUDA_CHECK result, [Call_cuMemcpy3D params]))"

definition pocl_cuda_copy_rect ::
  "env \<Rightarrow> ptr \<Rightarrow> ptr \<Rightarrow> (nat \<Rightarrow> size_t) \<Rightarrow> (nat \<Rightarrow> size_t) \<Rightarrow> (nat \<Rightarrow> size_t) \<Rightarrow>
   size_t \<Rightarrow> size_t \<Rightarrow> size_t \<Rightarrow> size_t \<Rightarrow> unit exec" where
  "pocl_cuda_copy_rect e src_ptr dst_ptr src_origin dst_origin region
     src_row_pitch src_slice_pitch dst_row_pitch dst_slice_pitch =
     (if src_row_pitch = 0 then (Inl DIVISION_BY_ZERO, [])
      else if dst_row_pitch = 0 then (Inl DIVISION_BY_ZERO, [])
      else
        let params = zero_CUDA_MEMCPY3D
              \<lparr>WidthInBytes := region 0,
               Height := region 1,
               Depth := region 2,
               srcMemoryType := CU_MEMORYTYPE_DEVICE,
               srcDevice := src_ptr,
               srcXInBytes := src_origin 0,
               srcY := src_origin 1,
               srcZ := src_origin 2,
               srcPitch := src_row_pitch,
               srcHeight := src_slice_pitch div src_row_pitch,
               dstMemoryType := CU_MEMORYTYPE_DEVICE,
               dstDevice := dst_ptr,
               dstXInBytes := dst_origin 0,
               dstY := dst_origin 1,
               dstZ := dst_origin 2,
               dstPitch := dst_row_pitch,
               dstHeight := dst_slice_pitch div dst_row_pitch\<rparr>;
            result = cuMemcpy3D e params
        in (CUDA_CHECK result, [Call_cuMemcpy3D params]))"

section \<open>Mapping and unmapping\<close>

definition pocl_cuda_map_mem :: "env \<Rightarrow> ptr \<Rightarrow> size_t \<Rightarrow> size_t \<Rightarrow> ptr \<Rightarrow> ptr exec" where
  "pocl_cuda_map_mem e buf_ptr offset sz host_ptr =
     (if host_ptr \<noteq> NULL then (Inr host_ptr, [])
      else
        let p = malloc e sz;
            result = cuMemcpyDtoH e p (buf_ptr + offset) sz;
            t = [Call_malloc sz, Call_cuMemcpyDtoH p (buf_ptr + offset) sz]
        in (case CUDA_CHECK result of
              Inl err \<Rightarrow> (Inl err, t)
            | Inr _ \<Rightarrow> (Inr p, t)))"

definition pocl_cuda_unmap_mem :: "env \<Rightarrow> ptr \<Rightarrow> ptr \<Rightarrow> size_t \<Rightarrow> size_t \<Rightarrow> ptr exec" where
  "pocl_cuda_unmap_mem e host_ptr device_start_ptr offset sz =
     (if host_ptr \<noteq> NULL then
        let result = cuMemcpyHtoD e (device_start_ptr + offset) host_ptr sz;
            t = [Call_cuMemcpyHtoD (device_start_ptr + offset) host_ptr sz]
        in (case CUDA_CHECK result of
              Inl err \<Rightarrow> (Inl err, t)
            | Inr _ \<Rightarrow> (Inr NULL, t @ [Call_free host_ptr]))
      else (Inr NULL, []))"

section \<open>Memory object manager\<close>

text \<open>
  \<^verbatim>\<open>pocl_cuda_alloc_mem_obj\<close>. The flag \<open>arm\<close> is the preprocessor condition
  \<^verbatim>\<open>defined __arm__\<close>. The local functions \<open>own_slot\<close> and \<open>store\<close> are the two
  tails every branch of the source falls into: the copy into the device's own slot
  (lines 305 to 309) and, before it, the eager copy and the write of the region's slot
  (lines 294 to 302). The result is the returned \<^verbatim>\<open>cl_int\<close> with the memory object
  as the call leaves it.
\<close>

definition pocl_cuda_alloc_mem_obj ::
  "bool \<Rightarrow> env \<Rightarrow> cl_device \<Rightarrow> cl_mem \<Rightarrow> ptr \<Rightarrow> (int \<times> cl_mem) exec" where
  "pocl_cuda_alloc_mem_obj arm e dev mem_obj host_ptr =
     (let t0 = [Call_cuCtxSetCurrent (cuda_context (data dev))];
          gid = global_mem_id dev;
          own_slot = (\<lambda>m t.
            (Inr (CL_SUCCESS,
                  m\<lparr>device_ptrs := (device_ptrs m)(dev_id dev := device_ptrs m gid)\<rparr>), t));
          store = (\<lambda>m b t.
            let m' = m\<lparr>device_ptrs := (device_ptrs m)
                        (gid := (device_ptrs m gid)\<lparr>mem_ptr := b, slot_global_mem_id := gid\<rparr>)\<rparr>
            in if flags m AND CL_MEM_COPY_HOST_PTR \<noteq> 0 then
                 let result = cuMemcpyHtoD e b host_ptr (mem_size m);
                     t' = t @ [Call_cuMemcpyHtoD b host_ptr (mem_size m)]
                 in (case CUDA_CHECK result of
                       Inl err \<Rightarrow> (Inl err, t')
                     | Inr _ \<Rightarrow> own_slot m' t')
               else own_slot m' t)
      in if mem_ptr (device_ptrs mem_obj gid) = NULL then
           if flags mem_obj AND CL_MEM_USE_HOST_PTR \<noteq> 0 then
             if arm then
               let (result, b) = cuMemAlloc e (mem_size mem_obj);
                   t1 = t0 @ [Call_cuMemAlloc (mem_size mem_obj)]
               in (case CUDA_CHECK result of
                     Inl err \<Rightarrow> (Inl err, t1)
                   | Inr _ \<Rightarrow> store mem_obj b t1)
             else
               let result = cuMemHostRegister e host_ptr (mem_size mem_obj);
                   t1 = t0 @ [Call_cuMemHostRegister host_ptr (mem_size mem_obj)]
               in (case (if result \<noteq> CUDA_SUCCESS
                            \<and> result \<noteq> CUDA_ERROR_HOST_MEMORY_ALREADY_REGISTERED
                         then CUDA_CHECK result else Inr ()) of
                     Inl err \<Rightarrow> (Inl err, t1)
                   | Inr _ \<Rightarrow>
                       let (result, b) = cuMemHostGetDevicePointer e host_ptr;
                           t2 = t1 @ [Call_cuMemHostGetDevicePointer host_ptr]
                       in (case CUDA_CHECK result of
                             Inl err \<Rightarrow> (Inl err, t2)
                           | Inr _ \<Rightarrow> store mem_obj b t2))
           else if flags mem_obj AND CL_MEM_ALLOC_HOST_PTR \<noteq> 0 then
             let (result, h) = cuMemHostAlloc e (mem_size mem_obj);
                 t1 = t0 @ [Call_cuMemHostAlloc (mem_size mem_obj)]
             in (case CUDA_CHECK result of
                   Inl err \<Rightarrow> (Inl err, t1)
                 | Inr _ \<Rightarrow>
                     let m1 = mem_obj\<lparr>mem_host_ptr := h\<rparr>;
                         (result, b) = cuMemHostGetDevicePointer e (mem_host_ptr m1);
                         t2 = t1 @ [Call_cuMemHostGetDevicePointer (mem_host_ptr m1)]
                     in (case CUDA_CHECK result of
                           Inl err \<Rightarrow> (Inl err, t2)
                         | Inr _ \<Rightarrow> store m1 b t2))
           else
             let (result, b) = cuMemAlloc e (mem_size mem_obj);
                 t1 = t0 @ [Call_cuMemAlloc (mem_size mem_obj)]
             in if result \<noteq> CUDA_SUCCESS
                then (Inr (CL_MEM_OBJECT_ALLOCATION_FAILURE, mem_obj), t1)
                else store mem_obj b t1
         else own_slot mem_obj t0)"

text \<open>\<^verbatim>\<open>pocl_cuda_free\<close>: both driver results are ignored, so the call always returns.\<close>

definition pocl_cuda_free :: "cl_device \<Rightarrow> cl_mem \<Rightarrow> cl_mem \<times> call list" where
  "pocl_cuda_free dev mem_obj =
     (let t0 = [Call_cuCtxSetCurrent (cuda_context (data dev))]
      in if flags mem_obj AND CL_MEM_ALLOC_HOST_PTR \<noteq> 0 then
           (mem_obj\<lparr>mem_host_ptr := NULL\<rparr>, t0 @ [Call_cuMemFreeHost (mem_host_ptr mem_obj)])
         else
           let p = mem_ptr (device_ptrs mem_obj (dev_id dev))
           in (mem_obj, t0 @ [Call_cuMemFree p]))"

section \<open>Kernel artifact loader\<close>

text \<open>
  The two file names of \<^verbatim>\<open>load_or_generate_kernel\<close> (lines 507 to 514). The buffer
  \<^verbatim>\<open>ptx_filename\<close> has \<^verbatim>\<open>POCL_FILENAME_LENGTH\<close> bytes; \<^verbatim>\<open>strncat\<close> appends at
  most \<^verbatim>\<open>POCL_FILENAME_LENGTH - 1\<close> characters of the suffix and a terminator,
  whatever room is left.
\<close>

definition bc_filename_of :: "env \<Rightarrow> cl_kernel \<Rightarrow> cl_device \<Rightarrow> string" where
  "bc_filename_of e kern dev =
     (let device_i = pocl_cl_device_to_index e (program kern) dev
      in pocl_cache_work_group_function_path e (program kern) device_i kern 0 0 0)"

definition ptx_filename_of :: "env \<Rightarrow> cl_kernel \<Rightarrow> cl_device \<Rightarrow> string" where
  "ptx_filename_of e kern dev =
     bc_filename_of e kern dev @ take (POCL_FILENAME_LENGTH e - 1) ''.ptx''"

definition load_or_generate_kernel :: "env \<Rightarrow> cl_kernel \<Rightarrow> cl_device \<Rightarrow> cl_kernel exec" where
  "load_or_generate_kernel e kern dev =
     (let t0 = [Call_cuCtxSetCurrent (cuda_context (data dev))]
      in if kernel_data kern \<noteq> NULL then (Inr kern, t0)
         else
           let bc_filename = bc_filename_of e kern dev;
               ptx_filename = ptx_filename_of e kern dev
           in if POCL_FILENAME_LENGTH e < length ptx_filename + 1
              then (Inl BUFFER_OVERFLOW, t0)
              else
                let generate = \<not> pocl_exists e ptx_filename;
                    t1 = t0 @ (if generate
                               then [Call_pocl_ptx_gen bc_filename ptx_filename (name kern)
                                       (llvm_cpu dev)]
                               else [])
                in if generate
                      \<and> pocl_ptx_gen e bc_filename ptx_filename (name kern) (llvm_cpu dev) \<noteq> 0
                   then (Inl ABORT, t1)
                   else
                     let (result, module) = cuModuleLoad e ptx_filename;
                         t2 = t1 @ [Call_cuModuleLoad ptx_filename]
                     in (case CUDA_CHECK result of
                           Inl err \<Rightarrow> (Inl err, t2)
                         | Inr _ \<Rightarrow>
                             let (result, function) = cuModuleGetFunction e module (name kern);
                                 t3 = t2 @ [Call_cuModuleGetFunction module (name kern)]
                             in (case CUDA_CHECK result of
                                   Inl err \<Rightarrow> (Inl err, t3)
                                 | Inr _ \<Rightarrow> (Inr (kern\<lparr>kernel_data := function\<rparr>), t3))))"


section \<open>Argument marshaler and launcher\<close>

text \<open>
  A bound argument (\<^verbatim>\<open>pocl_argument\<close>): the fields \<^verbatim>\<open>value\<close> and \<^verbatim>\<open>size\<close> are
  \<open>arg_value\<close> and \<open>arg_size\<close> here.
\<close>

record pocl_argument =
  arg_value :: ptr
  arg_size :: size_t

datatype cl_command_type = CL_COMMAND_NDRANGE_KERNEL | CL_COMMAND_OTHER

text \<open>
  A command node, with the members of \<^verbatim>\<open>command.run\<close> the launch reads:
  \<^verbatim>\<open>kernel\<close>, \<^verbatim>\<open>arguments\<close>, \<^verbatim>\<open>pc.num_groups\<close> and the three local sizes.
\<close>

record cl_command_node =
  node_type :: cl_command_type
  run_kernel :: cl_kernel
  run_arguments :: "nat \<Rightarrow> pocl_argument"
  run_num_groups :: "nat \<Rightarrow> size_t"
  run_local_x :: size_t
  run_local_y :: size_t
  run_local_z :: size_t

text \<open>
  The locals of \<^verbatim>\<open>pocl_cuda_submit\<close> that the two for statements write. The arrays are
  variable-length arrays with no initialiser: an entry is \<open>None\<close> until it is written.
\<close>

record marshal =
  params :: "nat \<rightharpoonup> param"
  sharedMemOffsets :: "nat \<rightharpoonup> unsigned"
  sharedMemBytes :: unsigned

definition marshal_init :: marshal where
  "marshal_init = \<lparr>params = Map.empty, sharedMemOffsets = Map.empty, sharedMemBytes = 0\<rparr>"

text \<open>
  \<^verbatim>\<open>sharedMemBytes += arguments[i].size\<close>: the sum is taken in \<^verbatim>\<open>size_t\<close> and
  converted back to \<^verbatim>\<open>unsigned\<close>, which keeps its low 32 bits.
\<close>

definition add_size :: "unsigned \<Rightarrow> size_t \<Rightarrow> unsigned" where
  "add_size acc sz = ucast ((ucast acc :: size_t) + sz)"

text \<open>
  The body of the first loop (lines 577 to 621), for the argument at index \<open>i\<close>.
  \<open>heap\<close> reads the memory object an argument's value points to
  (\<^verbatim>\<open>*(void **)arguments[i].value\<close>).
\<close>

definition marshal_arg ::
  "bool \<Rightarrow> (ptr \<Rightarrow> cl_mem) \<Rightarrow> cl_kernel \<Rightarrow> (nat \<Rightarrow> pocl_argument) \<Rightarrow> cl_device \<Rightarrow>
   nat \<Rightarrow> marshal \<Rightarrow> marshal exec" where
  "marshal_arg arm heap kern arguments dev i st =
     (case type (arg_info kern i) of
        POCL_ARG_TYPE_NONE \<Rightarrow>
          (Inr (st\<lparr>params := (params st)(i \<mapsto> PARAM_VALUE (arg_value (arguments i)))\<rparr>), [])
      | POCL_ARG_TYPE_POINTER \<Rightarrow>
          if is_local (arg_info kern i) then
            (Inr (st\<lparr>sharedMemOffsets := (sharedMemOffsets st)(i \<mapsto> sharedMemBytes st),
                     params := (params st)(i \<mapsto> PARAM_SHARED_OFFSET i),
                     sharedMemBytes := add_size (sharedMemBytes st) (arg_size (arguments i))\<rparr>),
             [])
          else if arg_value (arguments i) \<noteq> NULL then
            let mem = heap (arg_value (arguments i));
                st' = st\<lparr>params := (params st)
                          (i \<mapsto> PARAM_DEVICE_PTR (arg_value (arguments i)) (dev_id dev))\<rparr>
            in (Inr st',
                if arm \<and> flags mem AND CL_MEM_USE_HOST_PTR \<noteq> 0
                then [Call_cuMemcpyHtoD (mem_ptr (device_ptrs mem (dev_id dev)))
                        (mem_host_ptr mem) (mem_size mem)]
                else [])
          else (Inr (st\<lparr>params := (params st)(i \<mapsto> PARAM_NULL)\<rparr>), [])
      | POCL_ARG_TYPE_IMAGE \<Rightarrow> (Inl ABORT, [])
      | POCL_ARG_TYPE_SAMPLER \<Rightarrow> (Inl ABORT, []))"

text \<open>The first loop, \<^verbatim>\<open>for (i = 0; i < kernel->num_args; i++)\<close>, from index \<open>i\<close> on.\<close>

function args_loop ::
  "bool \<Rightarrow> (ptr \<Rightarrow> cl_mem) \<Rightarrow> cl_kernel \<Rightarrow> (nat \<Rightarrow> pocl_argument) \<Rightarrow> cl_device \<Rightarrow>
   nat \<Rightarrow> marshal \<Rightarrow> call list \<Rightarrow> marshal exec" where
  "args_loop arm heap kern arguments dev i st t =
     (if i < num_args kern then
        (case marshal_arg arm heap kern arguments dev i st of
           (Inl err, t') \<Rightarrow> (Inl err, t @ t')
         | (Inr st', t') \<Rightarrow> args_loop arm heap kern arguments dev (Suc i) st' (t @ t'))
      else (Inr st, t))"
  by pat_completeness auto
termination
  by (relation "measure (\<lambda>(arm, heap, kern, arguments, dev, i, st, t). num_args kern - i)") auto

text \<open>
  The second loop (lines 626 to 631), over the automatic local allocations, from
  index \<open>i\<close> on.
\<close>

function locals_loop :: "cl_kernel \<Rightarrow> (nat \<Rightarrow> pocl_argument) \<Rightarrow> nat \<Rightarrow> marshal \<Rightarrow> marshal" where
  "locals_loop kern arguments i st =
     (if i < num_locals kern then
        locals_loop kern arguments (Suc i)
          (st\<lparr>sharedMemOffsets := (sharedMemOffsets st)(num_args kern + i \<mapsto> sharedMemBytes st),
              sharedMemBytes :=
                add_size (sharedMemBytes st) (arg_size (arguments (num_args kern + i))),
              params := (params st)(num_args kern + i \<mapsto> PARAM_SHARED_OFFSET (num_args kern + i))\<rparr>)
      else st)"
  by pat_completeness auto
termination
  by (relation "measure (\<lambda>(kern, arguments, i, st). num_locals kern - i)") auto

text \<open>The copies back from the device after the launch, compiled in under \<^verbatim>\<open>__arm__\<close>.\<close>

function copy_back_loop ::
  "(ptr \<Rightarrow> cl_mem) \<Rightarrow> cl_kernel \<Rightarrow> (nat \<Rightarrow> pocl_argument) \<Rightarrow> cl_device \<Rightarrow> nat \<Rightarrow>
   call list \<Rightarrow> call list" where
  "copy_back_loop heap kern arguments dev i t =
     (if i < num_args kern then
        copy_back_loop heap kern arguments dev (Suc i)
          (if type (arg_info kern i) = POCL_ARG_TYPE_POINTER
              \<and> \<not> is_local (arg_info kern i) \<and> arg_value (arguments i) \<noteq> NULL
              \<and> flags (heap (arg_value (arguments i))) AND CL_MEM_USE_HOST_PTR \<noteq> 0
           then
             let mem = heap (arg_value (arguments i))
             in t @ [Call_cuMemcpyDtoH (mem_host_ptr mem)
                       (mem_ptr (device_ptrs mem (dev_id dev))) (mem_size mem)]
           else t)
      else t)"
  by pat_completeness auto
termination
  by (relation "measure (\<lambda>(heap, kern, arguments, dev, i, t). num_args kern - i)") auto

text \<open>
  The recursive equations are unfolded by hand, one iteration at a time, and are kept out
  of the simplifier.
\<close>

declare args_loop.simps [simp del]
declare locals_loop.simps [simp del]
declare copy_back_loop.simps [simp del]

text \<open>
  \<^verbatim>\<open>pocl_cuda_submit\<close>, for the device \<^verbatim>\<open>cq->device\<close>. It returns the kernel, whose
  cached function the call may have set. The group counts and local sizes are
  converted to the \<^verbatim>\<open>unsigned int\<close> parameters of \<^verbatim>\<open>cuLaunchKernel\<close>, which keeps
  their low 32 bits.
\<close>

definition pocl_cuda_submit ::
  "bool \<Rightarrow> env \<Rightarrow> (ptr \<Rightarrow> cl_mem) \<Rightarrow> cl_command_node \<Rightarrow> cl_device \<Rightarrow> cl_kernel exec" where
  "pocl_cuda_submit arm e heap node dev =
     (let t0 = [Call_cuCtxSetCurrent (cuda_context (data dev)),
                Call_POCL_UPDATE_EVENT SUBMITTED]
      in if node_type node \<noteq> CL_COMMAND_NDRANGE_KERNEL
         then (Inr (run_kernel node), t0 @ [Call_pocl_exec_command])
         else
           let arguments = run_arguments node
           in (case load_or_generate_kernel e (run_kernel node) dev of
                 (Inl err, t1) \<Rightarrow> (Inl err, t0 @ t1)
               | (Inr kern, t1) \<Rightarrow>
                   let function = kernel_data kern
                   in (case args_loop arm heap kern arguments dev 0 marshal_init (t0 @ t1) of
                         (Inl err, t2) \<Rightarrow> (Inl err, t2)
                       | (Inr st1, t2) \<Rightarrow>
                           let st = locals_loop kern arguments 0 st1;
                               n = num_args kern + num_locals kern;
                               ps = map (params st) [0..<n];
                               t3 = t2 @ [Call_POCL_UPDATE_EVENT RUNNING,
                                          Call_cuLaunchKernel function
                                            (ucast (run_num_groups node 0),
                                             ucast (run_num_groups node 1),
                                             ucast (run_num_groups node 2))
                                            (ucast (run_local_x node), ucast (run_local_y node),
                                             ucast (run_local_z node))
                                            (sharedMemBytes st) ps
                                            (map (sharedMemOffsets st) [0..<n])];
                               result = cuLaunchKernel e function (sharedMemBytes st) ps
                           in (case CUDA_CHECK result of
                                 Inl err \<Rightarrow> (Inl err, t3)
                               | Inr _ \<Rightarrow>
                                   let t4 = (if arm
                                             then copy_back_loop heap kern arguments dev 0 t3
                                             else t3)
                                   in (Inr kern,
                                       t4 @ [Call_pocl_ndrange_node_cleanup,
                                             Call_POCL_UPDATE_EVENT COMPLETE])))))"

section \<open>Reference definitions for the properties\<close>

text \<open>
  The copy descriptor as the specification words it: one construction from a region
  and two sides. A side carries its memory-type tag, its pointer, its origin, its row
  pitch and its slice pitch; the pointer goes to the host or the device field that
  the tag selects, and the slice height of a side is its slice pitch divided by its
  row pitch.
\<close>

record rect_side =
  side_type :: CUmemorytype
  side_ptr :: ptr
  side_origin :: "nat \<Rightarrow> size_t"
  side_row_pitch :: size_t
  side_slice_pitch :: size_t

definition copy_descriptor :: "(nat \<Rightarrow> size_t) \<Rightarrow> rect_side \<Rightarrow> rect_side \<Rightarrow> CUDA_MEMCPY3D" where
  "copy_descriptor region src dst =
     \<lparr>srcXInBytes = side_origin src 0, srcY = side_origin src 1, srcZ = side_origin src 2,
      srcLOD = 0,
      srcMemoryType = side_type src,
      srcHost = (if side_type src = CU_MEMORYTYPE_HOST then side_ptr src else NULL),
      srcDevice = (if side_type src = CU_MEMORYTYPE_DEVICE then side_ptr src else 0),
      srcArray = NULL,
      srcPitch = side_row_pitch src,
      srcHeight = side_slice_pitch src div side_row_pitch src,
      dstXInBytes = side_origin dst 0, dstY = side_origin dst 1, dstZ = side_origin dst 2,
      dstLOD = 0,
      dstMemoryType = side_type dst,
      dstHost = (if side_type dst = CU_MEMORYTYPE_HOST then side_ptr dst else NULL),
      dstDevice = (if side_type dst = CU_MEMORYTYPE_DEVICE then side_ptr dst else 0),
      dstArray = NULL,
      dstPitch = side_row_pitch dst,
      dstHeight = side_slice_pitch dst div side_row_pitch dst,
      WidthInBytes = region 0, Height = region 1, Depth = region 2\<rparr>"

text \<open>
  The local arguments of a launch: an explicit argument that is a pointer declared
  local, or any of the automatic local allocations that follow the explicit
  arguments. \<open>local_total kern arguments i\<close> is the sum of the declared sizes of the
  local arguments before index \<open>i\<close>, as a natural number (no wrap-around).
\<close>

definition is_local_arg :: "cl_kernel \<Rightarrow> nat \<Rightarrow> bool" where
  "is_local_arg kern i =
     (if i < num_args kern
      then type (arg_info kern i) = POCL_ARG_TYPE_POINTER \<and> is_local (arg_info kern i)
      else i < num_args kern + num_locals kern)"

definition local_total :: "cl_kernel \<Rightarrow> (nat \<Rightarrow> pocl_argument) \<Rightarrow> nat \<Rightarrow> nat" where
  "local_total kern arguments i =
     sum_list (map (\<lambda>j. unat (arg_size (arguments j))) (filter (is_local_arg kern) [0..<i]))"

text \<open>
  The invariant of both marshaling iterations before index \<open>i\<close>: the running total is
  the sum so far modulo \<open>2 ^ 32\<close>, and every local argument already visited has its
  offset in the table and a parameter that points to that entry.
\<close>

definition marshal_inv :: "cl_kernel \<Rightarrow> (nat \<Rightarrow> pocl_argument) \<Rightarrow> nat \<Rightarrow> marshal \<Rightarrow> bool" where
  "marshal_inv kern arguments i st \<longleftrightarrow>
     sharedMemBytes st = of_nat (local_total kern arguments i)
     \<and> (\<forall>j<i. is_local_arg kern j \<longrightarrow>
            sharedMemOffsets st j = Some (of_nat (local_total kern arguments j))
            \<and> params st j = Some (PARAM_SHARED_OFFSET j))"

text \<open>
  What the driver answered to a traced call of the allocation operation, read back
  from the environment. Calls whose result the source does not read count as
  successful.
\<close>

fun driver_result :: "env \<Rightarrow> call \<Rightarrow> CUresult" where
  "driver_result e (Call_cuMemAlloc n) = fst (cuMemAlloc e n)"
| "driver_result e (Call_cuMemHostRegister p n) = cuMemHostRegister e p n"
| "driver_result e (Call_cuMemHostGetDevicePointer p) = fst (cuMemHostGetDevicePointer e p)"
| "driver_result e (Call_cuMemHostAlloc n) = fst (cuMemHostAlloc e n)"
| "driver_result e (Call_cuMemcpyHtoD d h n) = cuMemcpyHtoD e d h n"
| "driver_result e _ = CUDA_SUCCESS"




section \<open>Concrete inputs\<close>

text \<open>
  An environment in which every call succeeds and no artifact is on disk yet. The
  cache path spells the program and the device index in unary, which keeps distinct
  keys apart.
\<close>

definition nominal_env :: env where
  "nominal_env =
     \<lparr>cuMemAlloc = (\<lambda>n. (CUDA_SUCCESS, 0x1000)),
      cuMemHostRegister = (\<lambda>p n. CUDA_SUCCESS),
      cuMemHostGetDevicePointer = (\<lambda>p. (CUDA_SUCCESS, p + 0x100000)),
      cuMemHostAlloc = (\<lambda>n. (CUDA_SUCCESS, 0x2000)),
      cuMemcpyHtoD = (\<lambda>d h n. CUDA_SUCCESS),
      cuMemcpyDtoH = (\<lambda>h d n. CUDA_SUCCESS),
      cuMemcpyDtoD = (\<lambda>d s n. CUDA_SUCCESS),
      cuMemcpy3D = (\<lambda>d. CUDA_SUCCESS),
      cuModuleLoad = (\<lambda>f. (CUDA_SUCCESS, 0x3000)),
      cuModuleGetFunction = (\<lambda>m n. (CUDA_SUCCESS, 0x4000)),
      cuLaunchKernel = (\<lambda>f s ps. CUDA_SUCCESS),
      malloc = (\<lambda>n. 0x5000),
      pocl_exists = (\<lambda>f. False),
      pocl_ptx_gen = (\<lambda>bc ptx n cpu. 0),
      pocl_cl_device_to_index = (\<lambda>p d. dev_id d),
      pocl_cache_work_group_function_path =
        (\<lambda>p i k x y z. replicate p (CHR ''p'') @ ''/'' @ replicate i (CHR ''d'')),
      POCL_FILENAME_LENGTH = 64\<rparr>"

text \<open>The same driver, except that it reports every host range as registered already.\<close>

definition registered_env :: env where
  "registered_env =
     nominal_env\<lparr>cuMemHostRegister := (\<lambda>p n. CUDA_ERROR_HOST_MEMORY_ALREADY_REGISTERED)\<rparr>"

text \<open>A driver that is out of device memory, and one whose host-side calls fail.\<close>

definition exhausted_env :: env where
  "exhausted_env = nominal_env\<lparr>cuMemAlloc := (\<lambda>n. (CUDA_ERROR_OTHER 2, NULL))\<rparr>"

definition broken_env :: env where
  "broken_env = nominal_env\<lparr>cuMemHostAlloc := (\<lambda>n. (CUDA_ERROR_OTHER 1, NULL))\<rparr>"

definition device0 :: cl_device where
  "device0 = \<lparr>dev_id = 0, global_mem_id = 0,
              data = \<lparr>device = 0, cuda_context = 7\<rparr>, llvm_cpu = ''sm_35''\<rparr>"




text \<open>A buffer of 64 bytes that is resident nowhere, under the given flags.\<close>

definition fresh_mem :: "64 word \<Rightarrow> cl_mem" where
  "fresh_mem fl =
     \<lparr>flags = fl, mem_size = 64, mem_host_ptr = NULL,
      device_ptrs = (\<lambda>d. \<lparr>mem_ptr = NULL, slot_global_mem_id = 0\<rparr>)\<rparr>"

text \<open>
  A kernel with the given explicit argument kinds (from index 0) and the given number
  of automatic locals; \<open>args_of\<close> binds the given sizes, with no value.
\<close>

definition kernel_of :: "pocl_argument_info list \<Rightarrow> nat \<Rightarrow> cl_kernel" where
  "kernel_of infos nl =
     \<lparr>name = ''k'', program = 1, kernel_data = NULL,
      num_args = length infos, num_locals = nl,
      arg_info = (\<lambda>i. if i < length infos then infos ! i
                        else \<lparr>type = POCL_ARG_TYPE_NONE, is_local = False\<rparr>)\<rparr>"

definition args_of :: "size_t list \<Rightarrow> nat \<Rightarrow> pocl_argument" where
  "args_of szs i = \<lparr>arg_value = NULL, arg_size = (if i < length szs then szs ! i else 0)\<rparr>"

definition local_ptr :: pocl_argument_info where
  "local_ptr = \<lparr>type = POCL_ARG_TYPE_POINTER, is_local = True\<rparr>"

definition ones :: "nat \<Rightarrow> size_t" where
  "ones i = 1"

definition launch_of :: "cl_kernel \<Rightarrow> (nat \<Rightarrow> pocl_argument) \<Rightarrow> cl_command_node" where
  "launch_of kern arguments =
     \<lparr>node_type = CL_COMMAND_NDRANGE_KERNEL, run_kernel = kern, run_arguments = arguments,
      run_num_groups = ones, run_local_x = 1, run_local_y = 1, run_local_z = 1\<rparr>"

text \<open>A heap in which every address holds a device-only buffer; an origin of zeros.\<close>

definition plain_heap :: "ptr \<Rightarrow> cl_mem" where
  "plain_heap p = fresh_mem 0"

definition origin0 :: "nat \<Rightarrow> size_t" where
  "origin0 i = 0"

definition region4 :: "nat \<Rightarrow> size_t" where
  "region4 i = 4"

text \<open>
  The 64-byte use-host-pointer buffer once \<open>device0\<close> has made it resident under
  \<open>nominal_env\<close>, for the host range at \<open>0x7000\<close>.
\<close>

definition registered_mem :: cl_mem where
  "registered_mem =
     (fresh_mem CL_MEM_USE_HOST_PTR)
       \<lparr>device_ptrs := (device_ptrs (fresh_mem CL_MEM_USE_HOST_PTR))
          (0 := \<lparr>mem_ptr = 0x107000, slot_global_mem_id = 0\<rparr>)\<rparr>"


definition image_arg :: pocl_argument_info where
  "image_arg = \<lparr>type = POCL_ARG_TYPE_IMAGE, is_local = False\<rparr>"

section \<open>Copy engine: properties\<close>

text \<open>
  C4. For non-zero row pitches, each of the three rectangular entry points passes the
  driver exactly the descriptor that the single construction \<open>copy_descriptor\<close>
  builds from the region and the two sides: width, height and depth come from the
  region, each side has its own origin and row pitch, each side's slice height is its
  slice pitch divided by its row pitch, and the entry points differ only in the tags
  of the sides (read: device to host; write: host to device; copy: device to device).
\<close>

theorem rect_descriptor_symmetric:
  "(buffer_row_pitch \<noteq> 0 \<and> host_row_pitch \<noteq> 0 \<longrightarrow>
      (let d = copy_descriptor region
          \<lparr>side_type = CU_MEMORYTYPE_DEVICE, side_ptr = device_ptr, side_origin = buffer_origin,
           side_row_pitch = buffer_row_pitch, side_slice_pitch = buffer_slice_pitch\<rparr>
          \<lparr>side_type = CU_MEMORYTYPE_HOST, side_ptr = host_ptr, side_origin = host_origin,
           side_row_pitch = host_row_pitch, side_slice_pitch = host_slice_pitch\<rparr>
      in pocl_cuda_read_rect e host_ptr device_ptr buffer_origin host_origin region
           buffer_row_pitch buffer_slice_pitch host_row_pitch host_slice_pitch
         = (CUDA_CHECK (cuMemcpy3D e d), [Call_cuMemcpy3D d]))
      \<and> (let d = copy_descriptor region
          \<lparr>side_type = CU_MEMORYTYPE_HOST, side_ptr = host_ptr, side_origin = host_origin,
           side_row_pitch = host_row_pitch, side_slice_pitch = host_slice_pitch\<rparr>
          \<lparr>side_type = CU_MEMORYTYPE_DEVICE, side_ptr = device_ptr, side_origin = buffer_origin,
           side_row_pitch = buffer_row_pitch, side_slice_pitch = buffer_slice_pitch\<rparr>
      in pocl_cuda_write_rect e host_ptr device_ptr buffer_origin host_origin region
           buffer_row_pitch buffer_slice_pitch host_row_pitch host_slice_pitch
         = (CUDA_CHECK (cuMemcpy3D e d), [Call_cuMemcpy3D d])))
   \<and> (src_row_pitch \<noteq> 0 \<and> dst_row_pitch \<noteq> 0 \<longrightarrow>
      (let d = copy_descriptor region
          \<lparr>side_type = CU_MEMORYTYPE_DEVICE, side_ptr = src_ptr, side_origin = src_origin,
           side_row_pitch = src_row_pitch, side_slice_pitch = src_slice_pitch\<rparr>
          \<lparr>side_type = CU_MEMORYTYPE_DEVICE, side_ptr = dst_ptr, side_origin = dst_origin,
           side_row_pitch = dst_row_pitch, side_slice_pitch = dst_slice_pitch\<rparr>
      in pocl_cuda_copy_rect e src_ptr dst_ptr src_origin dst_origin region
           src_row_pitch src_slice_pitch dst_row_pitch dst_slice_pitch
         = (CUDA_CHECK (cuMemcpy3D e d), [Call_cuMemcpy3D d])))"
proof -
  have r: "(let d = copy_descriptor region
          \<lparr>side_type = CU_MEMORYTYPE_DEVICE, side_ptr = device_ptr, side_origin = buffer_origin,
           side_row_pitch = buffer_row_pitch, side_slice_pitch = buffer_slice_pitch\<rparr>
          \<lparr>side_type = CU_MEMORYTYPE_HOST, side_ptr = host_ptr, side_origin = host_origin,
           side_row_pitch = host_row_pitch, side_slice_pitch = host_slice_pitch\<rparr>
      in pocl_cuda_read_rect e host_ptr device_ptr buffer_origin host_origin region
           buffer_row_pitch buffer_slice_pitch host_row_pitch host_slice_pitch
         = (CUDA_CHECK (cuMemcpy3D e d), [Call_cuMemcpy3D d]))"
    if "buffer_row_pitch \<noteq> 0" "host_row_pitch \<noteq> 0"
    using that
    by (simp add: pocl_cuda_read_rect_def copy_descriptor_def zero_CUDA_MEMCPY3D_def Let_def)
  have w: "(let d = copy_descriptor region
          \<lparr>side_type = CU_MEMORYTYPE_HOST, side_ptr = host_ptr, side_origin = host_origin,
           side_row_pitch = host_row_pitch, side_slice_pitch = host_slice_pitch\<rparr>
          \<lparr>side_type = CU_MEMORYTYPE_DEVICE, side_ptr = device_ptr, side_origin = buffer_origin,
           side_row_pitch = buffer_row_pitch, side_slice_pitch = buffer_slice_pitch\<rparr>
      in pocl_cuda_write_rect e host_ptr device_ptr buffer_origin host_origin region
           buffer_row_pitch buffer_slice_pitch host_row_pitch host_slice_pitch
         = (CUDA_CHECK (cuMemcpy3D e d), [Call_cuMemcpy3D d]))"
    if "buffer_row_pitch \<noteq> 0" "host_row_pitch \<noteq> 0"
    using that
    by (simp add: pocl_cuda_write_rect_def copy_descriptor_def zero_CUDA_MEMCPY3D_def Let_def)
  have c: "(let d = copy_descriptor region
          \<lparr>side_type = CU_MEMORYTYPE_DEVICE, side_ptr = src_ptr, side_origin = src_origin,
           side_row_pitch = src_row_pitch, side_slice_pitch = src_slice_pitch\<rparr>
          \<lparr>side_type = CU_MEMORYTYPE_DEVICE, side_ptr = dst_ptr, side_origin = dst_origin,
           side_row_pitch = dst_row_pitch, side_slice_pitch = dst_slice_pitch\<rparr>
      in pocl_cuda_copy_rect e src_ptr dst_ptr src_origin dst_origin region
           src_row_pitch src_slice_pitch dst_row_pitch dst_slice_pitch
         = (CUDA_CHECK (cuMemcpy3D e d), [Call_cuMemcpy3D d]))"
    if "src_row_pitch \<noteq> 0" "dst_row_pitch \<noteq> 0"
    using that
    by (simp add: pocl_cuda_copy_rect_def copy_descriptor_def zero_CUDA_MEMCPY3D_def Let_def)
  show ?thesis
    using r w c by blast
qed

theorem rect_descriptor_symmetric_witness:
  "pocl_cuda_read_rect nominal_env 0x5000 0x1000 origin0 origin0 region4 4 16 8 32
     = (Inr (),
        [Call_cuMemcpy3D (copy_descriptor region4
           \<lparr>side_type = CU_MEMORYTYPE_DEVICE, side_ptr = 0x1000, side_origin = origin0,
            side_row_pitch = 4, side_slice_pitch = 16\<rparr>
           \<lparr>side_type = CU_MEMORYTYPE_HOST, side_ptr = 0x5000, side_origin = origin0,
            side_row_pitch = 8, side_slice_pitch = 32\<rparr>)])
   \<and> srcHeight (copy_descriptor region4
           \<lparr>side_type = CU_MEMORYTYPE_DEVICE, side_ptr = 0x1000, side_origin = origin0,
            side_row_pitch = 4, side_slice_pitch = 16\<rparr>
           \<lparr>side_type = CU_MEMORYTYPE_HOST, side_ptr = 0x5000, side_origin = origin0,
            side_row_pitch = 8, side_slice_pitch = 32\<rparr>) = 4
   \<and> pocl_cuda_copy_rect nominal_env 0x1000 0x2000 origin0 origin0 region4 4 16 8 32
     = (Inr (),
        [Call_cuMemcpy3D (copy_descriptor region4
           \<lparr>side_type = CU_MEMORYTYPE_DEVICE, side_ptr = 0x1000, side_origin = origin0,
            side_row_pitch = 4, side_slice_pitch = 16\<rparr>
           \<lparr>side_type = CU_MEMORYTYPE_DEVICE, side_ptr = 0x2000, side_origin = origin0,
            side_row_pitch = 8, side_slice_pitch = 32\<rparr>)])"
  using rect_descriptor_symmetric [where buffer_row_pitch = 4 and host_row_pitch = 8
      and e = nominal_env and host_ptr = "0x5000"
      and device_ptr = "0x1000" and buffer_origin = origin0 and host_origin = origin0
      and region = region4 and buffer_slice_pitch = 16 and host_slice_pitch = 32
      and src_row_pitch = 4 and dst_row_pitch = 8 and src_slice_pitch = 16
      and dst_slice_pitch = 32 and src_ptr = "0x1000" and dst_ptr = "0x2000"
      and src_origin = origin0 and dst_origin = origin0]
  by (simp add: Let_def nominal_env_def pocl_cuda_abort_on_error_def copy_descriptor_def)

text \<open>
  C5. The elision test of \<^verbatim>\<open>pocl_cuda_copy\<close> compares the two base pointers and
  ignores the offsets. A copy inside one buffer from offset 0 to offset 16 has
  different source and destination addresses, yet no driver call is made.
\<close>

theorem copy_same_base_elided:
  "pocl_cuda_copy nominal_env 0x1000 0 0x1000 16 8 = (Inr (), [])
   \<and> (0x1000 + 0 :: ptr) \<noteq> 0x1000 + 16"
  by (simp add: pocl_cuda_copy_def)

section \<open>Mapping: properties\<close>



text \<open>
  C10. Called with a non-null host pointer, \<^verbatim>\<open>pocl_cuda_unmap_mem\<close> always starts with
  the copy of the mapped byte count from that pointer to the device start pointer plus
  offset; when the driver accepts the copy, it frees the host pointer and returns
  null (a rejected copy aborts). This holds for any non-null pointer, and a non-null
  host pointer given to \<^verbatim>\<open>pocl_cuda_map_mem\<close> comes back as it is, with no staging
  buffer allocated: the pointer freed is then the application's own.
\<close>

theorem unmap_writes_back_and_frees:
  assumes "host_ptr \<noteq> NULL"
  shows "pocl_cuda_unmap_mem e host_ptr device_start_ptr offset sz =
           (if cuMemcpyHtoD e (device_start_ptr + offset) host_ptr sz = CUDA_SUCCESS
            then (Inr NULL,
                  [Call_cuMemcpyHtoD (device_start_ptr + offset) host_ptr sz, Call_free host_ptr])
            else (Inl ABORT, [Call_cuMemcpyHtoD (device_start_ptr + offset) host_ptr sz]))
         \<and> pocl_cuda_map_mem e' buf_ptr offset sz host_ptr = (Inr host_ptr, [])"
  using assms
  by (simp add: pocl_cuda_map_mem_def pocl_cuda_unmap_mem_def pocl_cuda_abort_on_error_def)

theorem unmap_writes_back_and_frees_witness:
  "pocl_cuda_map_mem nominal_env 0x1000 8 16 0x7000 = (Inr 0x7000, [])
   \<and> pocl_cuda_unmap_mem nominal_env 0x7000 0x1000 8 16
       = (Inr NULL, [Call_cuMemcpyHtoD 0x1008 0x7000 16, Call_free 0x7000])"
  using unmap_writes_back_and_frees [of "0x7000" nominal_env "0x1000" 8 16 nominal_env "0x1000"]
  by (simp add: nominal_env_def)

section \<open>Unsupported features\<close>

lemma load_or_generate_kernel_fields:
  assumes "load_or_generate_kernel e k dev = (Inr k', t)"
  shows "k' = k\<lparr>kernel_data := kernel_data k'\<rparr>"
  using assms
  by (auto simp: load_or_generate_kernel_def Let_def pocl_cuda_abort_on_error_def
           split: if_splits prod.splits sum.splits)

lemma marshal_arg_unsupported:
  assumes "type (arg_info kern i) = POCL_ARG_TYPE_IMAGE \<or> type (arg_info kern i) = POCL_ARG_TYPE_SAMPLER"
  shows "marshal_arg arm heap kern arguments dev i st = (Inl ABORT, [])"
  using assms by (auto simp: marshal_arg_def)

lemma marshal_arg_error:
  assumes "marshal_arg arm heap kern arguments dev i st = (Inl err, t)"
  shows "err = ABORT"
  using assms
  by (auto simp: marshal_arg_def Let_def split: pocl_argument_type.splits if_splits)

lemma args_loop_unsupported:
  assumes "j \<le> i" and "i < num_args kern"
    and "type (arg_info kern i) = POCL_ARG_TYPE_IMAGE \<or> type (arg_info kern i) = POCL_ARG_TYPE_SAMPLER"
  shows "fst (args_loop arm heap kern arguments dev j st t) = Inl ABORT"
  using assms
proof (induction arm heap kern arguments dev j st t rule: args_loop.induct)
  case (1 arm heap kern arguments dev j st t)
  have lt: "j < num_args kern" using "1.prems" by simp
  show ?case
  proof (cases "marshal_arg arm heap kern arguments dev j st")
    case (Pair r t')
    show ?thesis
    proof (cases r)
      case (Inl err)
      with Pair have "err = ABORT" by (simp add: marshal_arg_error)
      with Pair Inl lt show ?thesis
        by (subst args_loop.simps) simp
    next
      case (Inr st')
      have "j \<noteq> i"
        using Pair Inr marshal_arg_unsupported [of kern i arm heap arguments dev st] "1.prems"(3)
        by auto
      then have "Suc j \<le> i" using "1.prems"(1) by simp
      then have "fst (args_loop arm heap kern arguments dev (Suc j) st' (t @ t')) = Inl ABORT"
        using "1.IH" [OF lt Pair [symmetric] Inr] "1.prems"(2,3) by simp
      with Pair Inr lt show ?thesis
        by (subst args_loop.simps) simp
    qed
  qed
qed

lemma nominal_load:
  "load_or_generate_kernel nominal_env (kernel_of infos nl) device0
     = (Inr ((kernel_of infos nl)\<lparr>kernel_data := 0x4000\<rparr>),
        [Call_cuCtxSetCurrent 7, Call_pocl_ptx_gen ''p/'' ''p/.ptx'' ''k'' ''sm_35'',
         Call_cuModuleLoad ''p/.ptx'', Call_cuModuleGetFunction 0x3000 ''k''])"
  by (simp add: load_or_generate_kernel_def nominal_env_def kernel_of_def device0_def
      bc_filename_of_def ptx_filename_of_def pocl_cuda_abort_on_error_def Let_def)

text \<open>
  C9, as the source has it. An image or sampler argument among the explicit arguments
  of a launch aborts the process once the kernel is loaded. The rectangular entry
  points do not look at the pitches: with non-zero row pitches the two quotients are
  defined, one descriptor reaches the driver, and the call returns if the driver
  accepts it and aborts otherwise.
\<close>

theorem unsupported_features_fatal:
  "(node_type node = CL_COMMAND_NDRANGE_KERNEL
      \<and> i < num_args (run_kernel node)
      \<and> (type (arg_info (run_kernel node) i) = POCL_ARG_TYPE_IMAGE
           \<or> type (arg_info (run_kernel node) i) = POCL_ARG_TYPE_SAMPLER)
      \<and> fst (load_or_generate_kernel e (run_kernel node) dev) = Inr kern
    \<longrightarrow> fst (pocl_cuda_submit arm e heap node dev) = Inl ABORT)
   \<and> (buffer_row_pitch \<noteq> 0 \<and> host_row_pitch \<noteq> 0 \<longrightarrow>
        (\<exists>d. pocl_cuda_read_rect e host_ptr device_ptr buffer_origin host_origin region
                buffer_row_pitch buffer_slice_pitch host_row_pitch host_slice_pitch
              = (if cuMemcpy3D e d = CUDA_SUCCESS then Inr () else Inl ABORT,
                 [Call_cuMemcpy3D d]))
        \<and> (\<exists>d. pocl_cuda_write_rect e host_ptr device_ptr buffer_origin host_origin region
                buffer_row_pitch buffer_slice_pitch host_row_pitch host_slice_pitch
              = (if cuMemcpy3D e d = CUDA_SUCCESS then Inr () else Inl ABORT,
                 [Call_cuMemcpy3D d]))
        \<and> (\<exists>d. pocl_cuda_copy_rect e device_ptr host_ptr buffer_origin host_origin region
                buffer_row_pitch buffer_slice_pitch host_row_pitch host_slice_pitch
              = (if cuMemcpy3D e d = CUDA_SUCCESS then Inr () else Inl ABORT,
                 [Call_cuMemcpy3D d])))"
proof -
  have submit: "fst (pocl_cuda_submit arm e heap node dev) = Inl ABORT"
    if nd: "node_type node = CL_COMMAND_NDRANGE_KERNEL"
      and i: "i < num_args (run_kernel node)"
      and ty: "type (arg_info (run_kernel node) i) = POCL_ARG_TYPE_IMAGE
           \<or> type (arg_info (run_kernel node) i) = POCL_ARG_TYPE_SAMPLER"
      and ld: "fst (load_or_generate_kernel e (run_kernel node) dev) = Inr kern"
  proof -
    obtain t1 where l: "load_or_generate_kernel e (run_kernel node) dev = (Inr kern, t1)"
      using ld by (cases "load_or_generate_kernel e (run_kernel node) dev") simp
    have k: "kern = (run_kernel node)\<lparr>kernel_data := kernel_data kern\<rparr>"
      by (rule load_or_generate_kernel_fields [OF l])
    have i': "i < num_args kern" and ty': "type (arg_info kern i) = POCL_ARG_TYPE_IMAGE
           \<or> type (arg_info kern i) = POCL_ARG_TYPE_SAMPLER"
      using i ty by (subst k, simp)+
    have a: "fst (args_loop arm heap kern (run_arguments node) dev 0 marshal_init
                ([Call_cuCtxSetCurrent (cuda_context (data dev)),
                  Call_POCL_UPDATE_EVENT SUBMITTED] @ t1)) = Inl ABORT"
      by (rule args_loop_unsupported [OF _ i' ty']) simp
    obtain t2 where a': "args_loop arm heap kern (run_arguments node) dev 0 marshal_init
                ([Call_cuCtxSetCurrent (cuda_context (data dev)),
                  Call_POCL_UPDATE_EVENT SUBMITTED] @ t1) = (Inl ABORT, t2)"
      using a by (metis prod.collapse)
    show ?thesis
      using nd l a' by (simp add: pocl_cuda_submit_def Let_def)
  qed
  have rd: "\<exists>d. pocl_cuda_read_rect e host_ptr device_ptr buffer_origin host_origin region
                buffer_row_pitch buffer_slice_pitch host_row_pitch host_slice_pitch
              = (if cuMemcpy3D e d = CUDA_SUCCESS then Inr () else Inl ABORT,
                 [Call_cuMemcpy3D d])"
    if "buffer_row_pitch \<noteq> 0" "host_row_pitch \<noteq> 0"
    using that by (simp add: pocl_cuda_read_rect_def Let_def pocl_cuda_abort_on_error_def)
  have wr: "\<exists>d. pocl_cuda_write_rect e host_ptr device_ptr buffer_origin host_origin region
                buffer_row_pitch buffer_slice_pitch host_row_pitch host_slice_pitch
              = (if cuMemcpy3D e d = CUDA_SUCCESS then Inr () else Inl ABORT,
                 [Call_cuMemcpy3D d])"
    if "buffer_row_pitch \<noteq> 0" "host_row_pitch \<noteq> 0"
    using that by (simp add: pocl_cuda_write_rect_def Let_def pocl_cuda_abort_on_error_def)
  have cp: "\<exists>d. pocl_cuda_copy_rect e device_ptr host_ptr buffer_origin host_origin region
                buffer_row_pitch buffer_slice_pitch host_row_pitch host_slice_pitch
              = (if cuMemcpy3D e d = CUDA_SUCCESS then Inr () else Inl ABORT,
                 [Call_cuMemcpy3D d])"
    if "buffer_row_pitch \<noteq> 0" "host_row_pitch \<noteq> 0"
    using that by (simp add: pocl_cuda_copy_rect_def Let_def pocl_cuda_abort_on_error_def)
  show ?thesis using submit rd wr cp by blast
qed

theorem unsupported_features_fatal_witness:
  "fst (pocl_cuda_submit False nominal_env plain_heap
          (launch_of (kernel_of [image_arg] 0) (args_of [8])) device0) = Inl ABORT
   \<and> pocl_cuda_read_rect nominal_env 0x5000 0x1000 origin0 origin0 region4 4 16 4 16
       \<noteq> (Inl DIVISION_BY_ZERO, [])"
  using unsupported_features_fatal [where node = "launch_of (kernel_of [image_arg] 0) (args_of [8])"
      and i = 0 and e = nominal_env and dev = device0
      and kern = "(kernel_of [image_arg] 0)\<lparr>kernel_data := 0x4000\<rparr>"
      and arm = False and heap = plain_heap
      and buffer_row_pitch = 4 and host_row_pitch = 4 and buffer_slice_pitch = 16
      and host_slice_pitch = 16 and host_ptr = "0x5000" and device_ptr = "0x1000"
      and buffer_origin = origin0 and host_origin = origin0 and region = region4]
    nominal_load [of "[image_arg]" 0]
  by (auto simp: launch_of_def kernel_of_def image_arg_def)

text \<open>
  With a zero row pitch the quotient is evaluated all the same: the call ends in the
  undefined division, not in an abort.
\<close>

theorem rect_zero_pitch_counterexample:
  "fst (pocl_cuda_read_rect nominal_env 0x5000 0x1000 origin0 origin0 region4 4 16 0 16)
     = Inl DIVISION_BY_ZERO
   \<and> fst (pocl_cuda_read_rect nominal_env 0x5000 0x1000 origin0 origin0 region4 4 16 0 16)
     \<noteq> Inl ABORT"
  by (simp add: pocl_cuda_read_rect_def)

section \<open>Argument marshaler: the shared-memory layout\<close>

lemma unat_add_size: "unat (add_size acc sz) = (unat acc + unat sz) mod 2 ^ 32"
proof -
  have "(4294967296 :: nat) dvd 18446744073709551616" by simp
  then have "(unat acc + unat sz) mod 18446744073709551616 mod 4294967296 =
     (unat acc + unat sz) mod 4294967296"
    by (rule mod_mod_cancel)
  then show ?thesis
    by (simp add: add_size_def unsigned_ucast_eq unat_word_ariths take_bit_eq_mod mod_simps)
qed

lemma add_size_eq: "add_size acc sz = acc + ucast sz"
  by (simp add: word_unat_eq_iff unat_add_size unat_word_ariths unsigned_ucast_eq
      take_bit_eq_mod mod_simps)

lemma local_total_Suc:
  "local_total kern arguments (Suc i) =
     local_total kern arguments i
       + (if is_local_arg kern i then unat (arg_size (arguments i)) else 0)"
  by (simp add: local_total_def)

lemma local_total_mono:
  assumes "i \<le> j"
  shows "local_total kern arguments i \<le> local_total kern arguments j"
  using assms
proof (induction j)
  case 0
  then show ?case by simp
next
  case (Suc j)
  show ?case
  proof (cases "i = Suc j")
    case True
    then show ?thesis by simp
  next
    case False
    with Suc.prems have "i \<le> j" by simp
    then have "local_total kern arguments i \<le> local_total kern arguments j"
      by (rule Suc.IH)
    then show ?thesis by (simp add: local_total_Suc)
  qed
qed

lemma local_total_first:
  assumes "\<forall>j<i. \<not> is_local_arg kern j"
  shows "local_total kern arguments i = 0"
proof -
  have "filter (is_local_arg kern) [0..<i] = []"
    using assms by (simp add: filter_empty_conv)
  then show ?thesis by (simp add: local_total_def)
qed

lemma local_total_kernel_data [simp]:
  "local_total (kern\<lparr>kernel_data := f\<rparr>) arguments i = local_total kern arguments i"
proof -
  have "is_local_arg (kern\<lparr>kernel_data := f\<rparr>) = is_local_arg kern"
    by (rule ext) (simp add: is_local_arg_def)
  then show ?thesis by (simp add: local_total_def)
qed

lemma is_local_arg_kernel_data [simp]:
  "is_local_arg (kern\<lparr>kernel_data := f\<rparr>) i = is_local_arg kern i"
  by (simp add: is_local_arg_def)

lemma marshal_inv_init: "marshal_inv kern arguments 0 marshal_init"
  by (simp add: marshal_inv_def marshal_init_def local_total_def)

lemma marshal_arg_inv:
  assumes i: "i < num_args kern"
    and step: "marshal_arg arm heap kern arguments dev i st = (Inr st', t')"
    and inv: "marshal_inv kern arguments i st"
  shows "marshal_inv kern arguments (Suc i) st'"
proof (cases "is_local_arg kern i")
  case True
  then have ty: "type (arg_info kern i) = POCL_ARG_TYPE_POINTER" "is_local (arg_info kern i)"
    using i by (simp_all add: is_local_arg_def)
  have st': "st' = st\<lparr>sharedMemOffsets := (sharedMemOffsets st)(i \<mapsto> sharedMemBytes st),
                     params := (params st)(i \<mapsto> PARAM_SHARED_OFFSET i),
                     sharedMemBytes := add_size (sharedMemBytes st) (arg_size (arguments i))\<rparr>"
    using step ty by (simp add: marshal_arg_def)
  show ?thesis
    using inv True
    by (auto simp: marshal_inv_def st' local_total_Suc add_size_eq less_Suc_eq)
next
  case False
  have keep: "sharedMemBytes st' = sharedMemBytes st"
    "\<And>j. j \<noteq> i \<Longrightarrow> sharedMemOffsets st' j = sharedMemOffsets st j"
    "\<And>j. j \<noteq> i \<Longrightarrow> params st' j = params st j"
    using step False i
    by (auto simp: marshal_arg_def is_local_arg_def Let_def
             split: pocl_argument_type.splits if_splits)
  show ?thesis
    using inv False
    by (auto simp: marshal_inv_def keep local_total_Suc less_Suc_eq)
qed

lemma args_loop_inv:
  assumes "args_loop arm heap kern arguments dev i st t = (Inr st', t')"
    and "marshal_inv kern arguments i st" and "i \<le> num_args kern"
  shows "marshal_inv kern arguments (num_args kern) st'"
  using assms
proof (induction arm heap kern arguments dev i st t rule: args_loop.induct)
  case (1 arm heap kern arguments dev i st t)
  show ?case
  proof (cases "i < num_args kern")
    case True
    obtain r u where m: "marshal_arg arm heap kern arguments dev i st = (r, u)"
      by (cases "marshal_arg arm heap kern arguments dev i st")
    from "1.prems"(1) True m obtain st1 where r: "r = Inr st1"
      and rest: "args_loop arm heap kern arguments dev (Suc i) st1 (t @ u) = (Inr st', t')"
      by (subst (asm) args_loop.simps) (auto split: sum.splits)
    have "marshal_inv kern arguments (Suc i) st1"
      using marshal_arg_inv [OF True _ "1.prems"(2)] m r by simp
    then show ?thesis
      using "1.IH" [OF True m [symmetric] r rest] True by simp
  next
    case False
    with "1.prems"(3) have "i = num_args kern" by simp
    moreover have "st' = st"
      using "1.prems"(1) False by (subst (asm) args_loop.simps) simp
    ultimately show ?thesis using "1.prems"(2) by simp
  qed
qed

lemma locals_loop_inv:
  assumes "marshal_inv kern arguments (num_args kern + i) st" and "i \<le> num_locals kern"
  shows "marshal_inv kern arguments (num_args kern + num_locals kern)
           (locals_loop kern arguments i st)"
  using assms
proof (induction kern arguments i st rule: locals_loop.induct)
  case (1 kern arguments i st)
  show ?case
  proof (cases "i < num_locals kern")
    case True
    let ?st = "st\<lparr>sharedMemOffsets := (sharedMemOffsets st)(num_args kern + i \<mapsto> sharedMemBytes st),
              sharedMemBytes :=
                add_size (sharedMemBytes st) (arg_size (arguments (num_args kern + i))),
              params := (params st)(num_args kern + i \<mapsto> PARAM_SHARED_OFFSET (num_args kern + i))\<rparr>"
    have loc: "is_local_arg kern (num_args kern + i)"
      using True by (simp add: is_local_arg_def)
    have "marshal_inv kern arguments (Suc (num_args kern + i)) ?st"
      using "1.prems"(1) loc
      by (auto simp: marshal_inv_def local_total_Suc add_size_eq less_Suc_eq)
    then have "marshal_inv kern arguments (num_args kern + Suc i) ?st" by simp
    then have "marshal_inv kern arguments (num_args kern + num_locals kern)
           (locals_loop kern arguments (Suc i) ?st)"
      using "1.IH" [OF True] True by simp
    then show ?thesis
      using True by (subst locals_loop.simps) simp
  next
    case False
    with "1.prems"(2) have "i = num_locals kern" by simp
    then show ?thesis
      using "1.prems"(1) by (subst locals_loop.simps) simp
  qed
qed

lemma marshal_arg_trace:
  assumes "marshal_arg arm heap kern arguments dev i st = (r, u)" and "c \<in> set u"
  shows "\<exists>d h n. c = Call_cuMemcpyHtoD d h n"
  using assms
  by (auto simp: marshal_arg_def Let_def split: pocl_argument_type.splits if_splits)

lemma args_loop_trace:
  assumes "args_loop arm heap kern arguments dev i st t = (r, t')" and "c \<in> set t'"
  shows "c \<in> set t \<or> (\<exists>d h n. c = Call_cuMemcpyHtoD d h n)"
  using assms
proof (induction arm heap kern arguments dev i st t rule: args_loop.induct)
  case (1 arm heap kern arguments dev i st t)
  show ?case
  proof (cases "i < num_args kern")
    case True
    obtain q u where m: "marshal_arg arm heap kern arguments dev i st = (q, u)"
      by (cases "marshal_arg arm heap kern arguments dev i st")
    show ?thesis
    proof (cases q)
      case (Inl err)
      then have "t' = t @ u"
        using "1.prems"(1) True m by (subst (asm) args_loop.simps) simp
      then show ?thesis
        using "1.prems"(2) marshal_arg_trace [OF m] by auto
    next
      case (Inr st1)
      then have "args_loop arm heap kern arguments dev (Suc i) st1 (t @ u) = (r, t')"
        using "1.prems"(1) True m by (subst (asm) args_loop.simps) simp
      then have "c \<in> set (t @ u) \<or> (\<exists>d h n. c = Call_cuMemcpyHtoD d h n)"
        using "1.IH" [OF True m [symmetric] Inr] "1.prems"(2) by simp
      then show ?thesis
        using marshal_arg_trace [OF m] by auto
    qed
  next
    case False
    then have "t' = t"
      using "1.prems"(1) by (subst (asm) args_loop.simps) simp
    then show ?thesis using "1.prems"(2) by simp
  qed
qed

lemma copy_back_loop_trace:
  assumes "c \<in> set (copy_back_loop heap kern arguments dev i t)"
  shows "c \<in> set t \<or> (\<exists>h d n. c = Call_cuMemcpyDtoH h d n)"
  using assms
proof (induction heap kern arguments dev i t rule: copy_back_loop.induct)
  case (1 heap kern arguments dev i t)
  show ?case
  proof (cases "i < num_args kern")
    case True
    then show ?thesis
      using "1.IH" [OF True] "1.prems"
      by (subst (asm) (2) copy_back_loop.simps) (auto simp: Let_def split: if_splits)
  next
    case False
    then show ?thesis
      using "1.prems" by (subst (asm) copy_back_loop.simps) simp
  qed
qed

lemma load_or_generate_kernel_trace:
  assumes "load_or_generate_kernel e k dev = (r, t)"
  shows "Call_cuLaunchKernel f g l s ps os \<notin> set t"
  using assms
  by (auto simp: load_or_generate_kernel_def Let_def split: if_splits prod.splits sum.splits)

lemma submit_launch:
  assumes "Call_cuLaunchKernel f g l shared ps offs
             \<in> set (snd (pocl_cuda_submit arm e heap node dev))"
  shows "\<exists>kern t1 st1 t2.
           load_or_generate_kernel e (run_kernel node) dev = (Inr kern, t1)
           \<and> args_loop arm heap kern (run_arguments node) dev 0 marshal_init
                ([Call_cuCtxSetCurrent (cuda_context (data dev)),
                  Call_POCL_UPDATE_EVENT SUBMITTED] @ t1) = (Inr st1, t2)
           \<and> f = kernel_data kern
           \<and> shared = sharedMemBytes (locals_loop kern (run_arguments node) 0 st1)
           \<and> ps = map (params (locals_loop kern (run_arguments node) 0 st1))
                    [0..<num_args kern + num_locals kern]
           \<and> offs = map (sharedMemOffsets (locals_loop kern (run_arguments node) 0 st1))
                    [0..<num_args kern + num_locals kern]"
proof -
  let ?L = "Call_cuLaunchKernel f g l shared ps offs"
  let ?t0 = "[Call_cuCtxSetCurrent (cuda_context (data dev)), Call_POCL_UPDATE_EVENT SUBMITTED]"
  have nd: "node_type node = CL_COMMAND_NDRANGE_KERNEL"
    using assms by (auto simp: pocl_cuda_submit_def Let_def split: if_splits)
  obtain q t1 where ld: "load_or_generate_kernel e (run_kernel node) dev = (q, t1)"
    by (cases "load_or_generate_kernel e (run_kernel node) dev")
  have no1: "?L \<notin> set t1" by (rule load_or_generate_kernel_trace [OF ld])
  obtain kern where q: "q = Inr kern"
    using assms nd ld no1 by (cases q) (auto simp: pocl_cuda_submit_def Let_def)
  obtain q2 t2 where al: "args_loop arm heap kern (run_arguments node) dev 0 marshal_init
                (?t0 @ t1) = (q2, t2)"
    by (cases "args_loop arm heap kern (run_arguments node) dev 0 marshal_init (?t0 @ t1)")
  have no2: "?L \<notin> set t2"
    using args_loop_trace [OF al, of ?L] no1 by auto
  obtain st1 where q2: "q2 = Inr st1"
    using assms nd ld q al no2 by (cases q2) (auto simp: pocl_cuda_submit_def Let_def)
  let ?st = "locals_loop kern (run_arguments node) 0 st1"
  let ?n = "num_args kern + num_locals kern"
  let ?ev = "Call_cuLaunchKernel (kernel_data kern)
               (ucast (run_num_groups node 0), ucast (run_num_groups node 1),
                ucast (run_num_groups node 2))
               (ucast (run_local_x node), ucast (run_local_y node),
                ucast (run_local_z node))
               (sharedMemBytes ?st) (map (params ?st) [0..<?n])
               (map (sharedMemOffsets ?st) [0..<?n])"
  let ?t3 = "t2 @ [Call_POCL_UPDATE_EVENT RUNNING, ?ev]"
  have cb: "?L \<in> set (copy_back_loop heap kern (run_arguments node) dev 0 ?t3) \<Longrightarrow> ?L \<in> set ?t3"
    using copy_back_loop_trace [of ?L heap kern "run_arguments node" dev 0 ?t3] by auto
  have "?L \<in> set ?t3"
    using assms nd ld q al q2 cb
    by (auto simp: pocl_cuda_submit_def Let_def split: sum.splits if_splits)
  then have "?L = ?ev" using no2 by auto
  then show ?thesis using ld q al q2 by auto
qed

lemma args_loop_two_locals:
  assumes "num_args k = Suc (Suc 0)" and "arg_info k 0 = local_ptr"
    and "arg_info k (Suc 0) = local_ptr"
  shows "args_loop arm heap k a dev 0 marshal_init t =
           (Inr \<lparr>params = [0 \<mapsto> PARAM_SHARED_OFFSET 0, Suc 0 \<mapsto> PARAM_SHARED_OFFSET (Suc 0)],
                 sharedMemOffsets = [0 \<mapsto> 0, Suc 0 \<mapsto> add_size 0 (arg_size (a 0))],
                 sharedMemBytes =
                   add_size (add_size 0 (arg_size (a 0))) (arg_size (a (Suc 0)))\<rparr>, t)"
  by (simp add: args_loop.simps [of _ _ k] assms marshal_arg_def local_ptr_def marshal_init_def)

lemma locals_loop_one:
  assumes "num_locals k = Suc 0"
  shows "locals_loop k a 0 st =
           st\<lparr>sharedMemOffsets := (sharedMemOffsets st)(num_args k \<mapsto> sharedMemBytes st),
              sharedMemBytes := add_size (sharedMemBytes st) (arg_size (a (num_args k))),
              params := (params st)(num_args k \<mapsto> PARAM_SHARED_OFFSET (num_args k))\<rparr>"
  by (simp add: locals_loop.simps [of k] assms)

lemma submit_three_locals:
  "snd (pocl_cuda_submit False nominal_env plain_heap
          (launch_of (kernel_of [local_ptr, local_ptr] (Suc 0)) a) device0)
     = [Call_cuCtxSetCurrent 7, Call_POCL_UPDATE_EVENT SUBMITTED,
        Call_cuCtxSetCurrent 7, Call_pocl_ptx_gen ''p/'' ''p/.ptx'' ''k'' ''sm_35'',
        Call_cuModuleLoad ''p/.ptx'', Call_cuModuleGetFunction 0x3000 ''k'',
        Call_POCL_UPDATE_EVENT RUNNING,
        Call_cuLaunchKernel 0x4000 (1, 1, 1) (1, 1, 1)
          (add_size (add_size (add_size 0 (arg_size (a 0)))
             (arg_size (a (Suc 0)))) (arg_size (a (Suc (Suc 0)))))
          [Some (PARAM_SHARED_OFFSET 0), Some (PARAM_SHARED_OFFSET (Suc 0)),
           Some (PARAM_SHARED_OFFSET (Suc (Suc 0)))]
          [Some 0, Some (add_size 0 (arg_size (a 0))),
           Some (add_size (add_size 0 (arg_size (a 0))) (arg_size (a (Suc 0))))],
        Call_pocl_ndrange_node_cleanup, Call_POCL_UPDATE_EVENT COMPLETE]"
proof -
  let ?kern = "kernel_of [local_ptr, local_ptr] (Suc 0)"
  let ?k = "?kern\<lparr>kernel_data := 0x4000\<rparr>"
  let ?node = "launch_of ?kern a"
  have na: "num_args ?k = Suc (Suc 0)" and nl: "num_locals ?k = Suc 0"
    by (simp_all add: kernel_of_def)
  have i0: "arg_info ?k 0 = local_ptr" and i1: "arg_info ?k (Suc 0) = local_ptr"
    by (simp_all add: kernel_of_def)
  have lk: "cuLaunchKernel nominal_env f s ps = CUDA_SUCCESS" for f s ps
    by (simp add: nominal_env_def)
  have cx: "cuda_context (data device0) = 7"
    by (simp add: device0_def)
  have nd: "node_type ?node = CL_COMMAND_NDRANGE_KERNEL" "run_kernel ?node = ?kern"
    "run_arguments ?node = a" "run_num_groups ?node = ones"
    "run_local_x ?node = 1" "run_local_y ?node = 1" "run_local_z ?node = 1"
    by (simp_all add: launch_of_def)
  have fn: "kernel_data ?k = 0x4000" by simp
  note al = args_loop_two_locals [OF na i0 i1]
  note ll = locals_loop_one [OF nl]
  show ?thesis
    by (simp add: pocl_cuda_submit_def Let_def nd nominal_load al ll na nl lk cx
        pocl_cuda_abort_on_error_def ones_def)
qed


lemma local_total_three:
  "local_total (kernel_of [local_ptr, local_ptr] (Suc 0)) a (Suc (Suc (Suc 0)))
     = unat (arg_size (a 0)) + unat (arg_size (a (Suc 0))) + unat (arg_size (a (Suc (Suc 0))))"
  by (simp add: local_total_def is_local_arg_def kernel_of_def local_ptr_def)

text \<open>
  C1, as the source has it. Whatever launch \<^verbatim>\<open>pocl_cuda_submit\<close> issues, its argument
  array and offset table have one entry per explicit argument and automatic local;
  the byte count passed as dynamic shared memory is the sum of the sizes of all local
  arguments modulo \<open>2 ^ 32\<close>; every local argument is passed as a pointer to its own
  entry of the offset table, which holds the sum of the sizes of the local arguments
  before it modulo \<open>2 ^ 32\<close> (0 for the first one), explicit arguments first and
  automatic locals continuing the same total. When the sum of all sizes is below
  \<open>2 ^ 32\<close>, the byte count is that sum exactly and, for two local arguments, the
  earlier one ends no later than the later one starts: the offsets never decrease,
  and they increase strictly past every local argument of non-zero size.
\<close>

theorem local_offsets_running_total:
  assumes "Call_cuLaunchKernel f g l shared ps offs
             \<in> set (snd (pocl_cuda_submit arm e heap node dev))"
  shows "(let kern = run_kernel node; arguments = run_arguments node;
              n = num_args kern + num_locals kern
          in length ps = n \<and> length offs = n
             \<and> shared = of_nat (local_total kern arguments n)
             \<and> (\<forall>i<n. is_local_arg kern i \<longrightarrow>
                    ps ! i = Some (PARAM_SHARED_OFFSET i)
                    \<and> offs ! i = Some (of_nat (local_total kern arguments i))
                    \<and> ((\<forall>j<i. \<not> is_local_arg kern j) \<longrightarrow> offs ! i = Some 0))
             \<and> (local_total kern arguments n < 2 ^ 32 \<longrightarrow>
                    unat shared = local_total kern arguments n
                    \<and> (\<forall>i<n. \<forall>j<n. i < j \<and> is_local_arg kern i \<and> is_local_arg kern j \<longrightarrow>
                          (\<exists>oi oj. offs ! i = Some oi \<and> offs ! j = Some oj
                             \<and> unat oi + unat (arg_size (arguments i)) \<le> unat oj
                             \<and> (arg_size (arguments i) \<noteq> 0 \<longrightarrow> oi < oj)))))"
proof -
  let ?k = "run_kernel node" and ?a = "run_arguments node"
  let ?n = "num_args ?k + num_locals ?k"
  from submit_launch [OF assms] obtain kern t1 st1 t2 where
    ld: "load_or_generate_kernel e ?k dev = (Inr kern, t1)"
    and al: "args_loop arm heap kern ?a dev 0 marshal_init
                ([Call_cuCtxSetCurrent (cuda_context (data dev)),
                  Call_POCL_UPDATE_EVENT SUBMITTED] @ t1) = (Inr st1, t2)"
    and sh: "shared = sharedMemBytes (locals_loop kern ?a 0 st1)"
    and ps: "ps = map (params (locals_loop kern ?a 0 st1)) [0..<num_args kern + num_locals kern]"
    and os: "offs = map (sharedMemOffsets (locals_loop kern ?a 0 st1))
                      [0..<num_args kern + num_locals kern]"
    by blast
  let ?st = "locals_loop kern ?a 0 st1"
  have k: "kern = ?k\<lparr>kernel_data := kernel_data kern\<rparr>"
    by (rule load_or_generate_kernel_fields [OF ld])
  have n: "num_args kern + num_locals kern = ?n"
    by (subst (1 2) k) simp
  have "marshal_inv kern ?a (num_args kern) st1"
    by (rule args_loop_inv [OF al marshal_inv_init]) simp
  then have "marshal_inv kern ?a (num_args kern + num_locals kern) ?st"
    using locals_loop_inv [of kern ?a 0 st1] by simp
  then have "marshal_inv (?k\<lparr>kernel_data := kernel_data kern\<rparr>) ?a ?n ?st"
    using k n by simp
  then have inv: "marshal_inv ?k ?a ?n ?st"
    by (simp add: marshal_inv_def)
  have len: "length ps = ?n" "length offs = ?n"
    using ps os n by simp_all
  have total: "shared = of_nat (local_total ?k ?a ?n)"
    using inv sh by (simp add: marshal_inv_def)
  have entry: "ps ! i = Some (PARAM_SHARED_OFFSET i)
       \<and> offs ! i = Some (of_nat (local_total ?k ?a i))"
    if "i < ?n" "is_local_arg ?k i" for i
    using inv that ps os n by (simp add: marshal_inv_def)
  have first: "offs ! i = Some 0"
    if "i < ?n" "is_local_arg ?k i" "\<forall>j<i. \<not> is_local_arg ?k j" for i
    using entry [OF that(1,2)] local_total_first [OF that(3), of ?a] by simp
  have exact: "unat (of_nat (local_total ?k ?a i) :: unsigned) = local_total ?k ?a i"
    if "local_total ?k ?a ?n < 2 ^ 32" "i \<le> ?n" for i
  proof -
    have "local_total ?k ?a i \<le> local_total ?k ?a ?n"
      by (rule local_total_mono [OF that(2)])
    with that(1) have "local_total ?k ?a i < 2 ^ 32" by simp
    then show ?thesis by (simp add: unat_of_nat)
  qed
  have apart: "\<exists>oi oj. offs ! i = Some oi \<and> offs ! j = Some oj
                 \<and> unat oi + unat (arg_size (?a i)) \<le> unat oj
                 \<and> (arg_size (?a i) \<noteq> 0 \<longrightarrow> oi < oj)"
    if small: "local_total ?k ?a ?n < 2 ^ 32" and ij: "i < ?n" "j < ?n" "i < j"
      and loc: "is_local_arg ?k i" "is_local_arg ?k j" for i j
  proof -
    let ?oi = "of_nat (local_total ?k ?a i) :: unsigned"
    let ?oj = "of_nat (local_total ?k ?a j) :: unsigned"
    have ui: "unat ?oi = local_total ?k ?a i" and uj: "unat ?oj = local_total ?k ?a j"
      using exact [OF small] ij by simp_all
    have "local_total ?k ?a (Suc i) \<le> local_total ?k ?a j"
      using ij(3) by (intro local_total_mono) simp
    then have le: "unat ?oi + unat (arg_size (?a i)) \<le> unat ?oj"
      using loc(1) ui uj by (simp add: local_total_Suc)
    have "?oi < ?oj" if "arg_size (?a i) \<noteq> 0"
    proof -
      have "0 < unat (arg_size (?a i))" using that by (simp add: unat_gt_0)
      with le show ?thesis by (simp add: word_less_nat_alt)
    qed
    with le entry [OF ij(1) loc(1)] entry [OF ij(2) loc(2)] show ?thesis by simp
  qed
  have shared_exact: "unat shared = local_total ?k ?a ?n"
    if "local_total ?k ?a ?n < 2 ^ 32"
    using exact [OF that, of ?n] total by simp
  show ?thesis
    unfolding Let_def
    using len total entry first apart shared_exact by blast
qed

theorem local_offsets_running_total_witness:
  "local_total (kernel_of [local_ptr, local_ptr] (Suc 0)) (args_of [16, 32, 8])
      (Suc (Suc (Suc 0))) = unat (56 :: unsigned)
   \<and> (\<exists>oi oj. [Some 0, Some 16, Some (48 :: unsigned)] ! Suc 0 = Some oi
          \<and> [Some 0, Some 16, Some (48 :: unsigned)] ! Suc (Suc 0) = Some oj
          \<and> unat oi + unat (arg_size (args_of [16, 32, 8] (Suc 0))) \<le> unat oj
          \<and> oi < oj)"
proof -
  let ?kern = "kernel_of [local_ptr, local_ptr] (Suc 0)" and ?a = "args_of [16, 32, 8]"
  have sizes: "arg_size (?a 0) = 16" "arg_size (?a (Suc 0)) = 32"
    "arg_size (?a (Suc (Suc 0))) = 8"
    by (simp_all add: args_of_def)
  have launch: "Call_cuLaunchKernel 0x4000 (1, 1, 1) (1, 1, 1) 56
          [Some (PARAM_SHARED_OFFSET 0), Some (PARAM_SHARED_OFFSET (Suc 0)),
           Some (PARAM_SHARED_OFFSET (Suc (Suc 0)))]
          [Some 0, Some 16, Some 48]
        \<in> set (snd (pocl_cuda_submit False nominal_env plain_heap
                       (launch_of ?kern ?a) device0))"
    by (simp add: submit_three_locals sizes add_size_eq)
  have n: "num_args ?kern + num_locals ?kern = Suc (Suc (Suc 0))"
    by (simp add: kernel_of_def)
  have rk: "run_kernel (launch_of ?kern ?a) = ?kern" "run_arguments (launch_of ?kern ?a) = ?a"
    by (simp_all add: launch_of_def)
  have small: "local_total ?kern ?a (Suc (Suc (Suc 0))) < 2 ^ 32"
    by (simp add: local_total_three sizes)
  have loc: "is_local_arg ?kern (Suc 0)" "is_local_arg ?kern (Suc (Suc 0))"
    by (simp_all add: is_local_arg_def kernel_of_def local_ptr_def)
  have nz: "arg_size (?a (Suc 0)) \<noteq> 0"
    using sizes by simp
  note main = local_offsets_running_total [OF launch, unfolded Let_def rk n]
  from main small have tot: "unat (56 :: unsigned) = local_total ?kern ?a (Suc (Suc (Suc 0)))"
    by blast
  from main small have "\<forall>i<Suc (Suc (Suc 0)). \<forall>j<Suc (Suc (Suc 0)).
                i < j \<and> is_local_arg ?kern i \<and> is_local_arg ?kern j \<longrightarrow>
                (\<exists>oi oj. [Some 0, Some 16, Some (48 :: unsigned)] ! i = Some oi
                   \<and> [Some 0, Some 16, Some (48 :: unsigned)] ! j = Some oj
                   \<and> unat oi + unat (arg_size (?a i)) \<le> unat oj
                   \<and> (arg_size (?a i) \<noteq> 0 \<longrightarrow> oi < oj))"
    by blast
  then have "Suc 0 < Suc (Suc 0) \<and> is_local_arg ?kern (Suc 0) \<and> is_local_arg ?kern (Suc (Suc 0))
      \<longrightarrow> (\<exists>oi oj. [Some 0, Some 16, Some (48 :: unsigned)] ! Suc 0 = Some oi
                   \<and> [Some 0, Some 16, Some (48 :: unsigned)] ! Suc (Suc 0) = Some oj
                   \<and> unat oi + unat (arg_size (?a (Suc 0))) \<le> unat oj
                   \<and> (arg_size (?a (Suc 0)) \<noteq> 0 \<longrightarrow> oi < oj))"
    by (metis lessI Suc_lessD)
  with loc nz tot show ?thesis
    by auto
qed

text \<open>
  The claim as worded fails on a launch with explicit local arguments of 0 and 4
  bytes and an automatic local of \<open>2 ^ 32\<close> bytes: the first two offsets are both 0,
  and the byte count passed is 4 while the sizes add up to \<open>2 ^ 32 + 4\<close>.
\<close>

theorem local_offsets_counterexample:
  "Call_cuLaunchKernel 0x4000 (1, 1, 1) (1, 1, 1) 4
      [Some (PARAM_SHARED_OFFSET 0), Some (PARAM_SHARED_OFFSET (Suc 0)),
       Some (PARAM_SHARED_OFFSET (Suc (Suc 0)))]
      [Some 0, Some 0, Some 4]
     \<in> set (snd (pocl_cuda_submit False nominal_env plain_heap
                    (launch_of (kernel_of [local_ptr, local_ptr] (Suc 0))
                       (args_of [0, 4, 0x100000000])) device0))
   \<and> local_total (kernel_of [local_ptr, local_ptr] (Suc 0)) (args_of [0, 4, 0x100000000])
         (Suc (Suc (Suc 0))) = 4294967300"
proof -
  have sizes: "arg_size (args_of [0, 4, 0x100000000] 0) = 0"
    "arg_size (args_of [0, 4, 0x100000000] (Suc 0)) = 4"
    "arg_size (args_of [0, 4, 0x100000000] (Suc (Suc 0))) = 0x100000000"
    by (simp_all add: args_of_def)
  show ?thesis
    by (simp add: submit_three_locals local_total_three sizes add_size_eq)
qed

section \<open>Memory object manager: properties\<close>

lemma flag_tests:
  "CL_MEM_USE_HOST_PTR AND CL_MEM_USE_HOST_PTR \<noteq> 0"
  "CL_MEM_USE_HOST_PTR AND CL_MEM_ALLOC_HOST_PTR = 0"
  "CL_MEM_USE_HOST_PTR AND CL_MEM_COPY_HOST_PTR = 0"
  "CL_MEM_ALLOC_HOST_PTR AND CL_MEM_USE_HOST_PTR = 0"
  "CL_MEM_ALLOC_HOST_PTR AND CL_MEM_ALLOC_HOST_PTR \<noteq> 0"
  "CL_MEM_ALLOC_HOST_PTR AND CL_MEM_COPY_HOST_PTR = 0"
  "CL_MEM_USE_HOST_PTR \<noteq> 0" "CL_MEM_ALLOC_HOST_PTR \<noteq> 0"
  by (simp_all add: CL_MEM_USE_HOST_PTR_def CL_MEM_ALLOC_HOST_PTR_def CL_MEM_COPY_HOST_PTR_def)

lemma fresh_mem_fields:
  "flags (fresh_mem fl) = fl" "mem_size (fresh_mem fl) = 64"
  "device_ptrs (fresh_mem fl) d = \<lparr>mem_ptr = NULL, slot_global_mem_id = 0\<rparr>"
  by (simp_all add: fresh_mem_def)

lemma device0_fields:
  "dev_id device0 = 0" "global_mem_id device0 = 0" "cuda_context (data device0) = 7"
  by (simp_all add: device0_def)



lemma alloc_use_host_nominal:
  "pocl_cuda_alloc_mem_obj False nominal_env device0 (fresh_mem CL_MEM_USE_HOST_PTR) 0x7000
     = (Inr (CL_SUCCESS, registered_mem),
        [Call_cuCtxSetCurrent 7, Call_cuMemHostRegister 0x7000 64,
         Call_cuMemHostGetDevicePointer 0x7000])"
  by (simp add: pocl_cuda_alloc_mem_obj_def Let_def fresh_mem_fields device0_fields flag_tests
      nominal_env_def pocl_cuda_abort_on_error_def registered_mem_def)

lemma alloc_use_host_registered:
  "pocl_cuda_alloc_mem_obj False registered_env device0 (fresh_mem CL_MEM_USE_HOST_PTR) 0x7000
     = (Inr (CL_SUCCESS, registered_mem),
        [Call_cuCtxSetCurrent 7, Call_cuMemHostRegister 0x7000 64,
         Call_cuMemHostGetDevicePointer 0x7000])"
  by (simp add: pocl_cuda_alloc_mem_obj_def Let_def fresh_mem_fields device0_fields flag_tests
      registered_env_def nominal_env_def pocl_cuda_abort_on_error_def registered_mem_def)

lemma alloc_host_alloc_broken:
  "snd (pocl_cuda_alloc_mem_obj False broken_env device0 (fresh_mem CL_MEM_ALLOC_HOST_PTR) NULL)
     = [Call_cuCtxSetCurrent 7, Call_cuMemHostAlloc 64]"
  by (simp add: pocl_cuda_alloc_mem_obj_def Let_def fresh_mem_fields device0_fields flag_tests
      broken_env_def nominal_env_def pocl_cuda_abort_on_error_def)



text \<open>
  C3, as the source has it. On the default device-only path a failed \<^verbatim>\<open>cuMemAlloc\<close>
  makes the call return \<^verbatim>\<open>CL_MEM_OBJECT_ALLOCATION_FAILURE\<close> with the memory object
  untouched. Any other traced driver call of the allocation operation that the
  driver fails aborts the process, with one exception the source makes explicit: the
  result \<^verbatim>\<open>CUDA_ERROR_HOST_MEMORY_ALREADY_REGISTERED\<close> of the host registration is
  let through.
\<close>

theorem alloc_failure_handling:
  "(mem_ptr (device_ptrs mem_obj (global_mem_id dev)) = NULL
      \<and> flags mem_obj AND CL_MEM_USE_HOST_PTR = 0
      \<and> flags mem_obj AND CL_MEM_ALLOC_HOST_PTR = 0
      \<and> fst (cuMemAlloc e (mem_size mem_obj)) \<noteq> CUDA_SUCCESS \<longrightarrow>
        pocl_cuda_alloc_mem_obj arm e dev mem_obj host_ptr
          = (Inr (CL_MEM_OBJECT_ALLOCATION_FAILURE, mem_obj),
             [Call_cuCtxSetCurrent (cuda_context (data dev)),
              Call_cuMemAlloc (mem_size mem_obj)]))
   \<and> (c \<in> set (snd (pocl_cuda_alloc_mem_obj arm e dev mem_obj host_ptr))
        \<and> driver_result e c \<noteq> CUDA_SUCCESS \<longrightarrow>
          fst (pocl_cuda_alloc_mem_obj arm e dev mem_obj host_ptr) = Inl ABORT
          \<or> (flags mem_obj AND CL_MEM_USE_HOST_PTR = 0
                \<and> flags mem_obj AND CL_MEM_ALLOC_HOST_PTR = 0
                \<and> c = Call_cuMemAlloc (mem_size mem_obj))
          \<or> (c = Call_cuMemHostRegister host_ptr (mem_size mem_obj)
                \<and> driver_result e c = CUDA_ERROR_HOST_MEMORY_ALREADY_REGISTERED))"
proof -
  have recover: "pocl_cuda_alloc_mem_obj arm e dev mem_obj host_ptr
          = (Inr (CL_MEM_OBJECT_ALLOCATION_FAILURE, mem_obj),
             [Call_cuCtxSetCurrent (cuda_context (data dev)),
              Call_cuMemAlloc (mem_size mem_obj)])"
    if "mem_ptr (device_ptrs mem_obj (global_mem_id dev)) = NULL"
      "flags mem_obj AND CL_MEM_USE_HOST_PTR = 0"
      "flags mem_obj AND CL_MEM_ALLOC_HOST_PTR = 0"
      "fst (cuMemAlloc e (mem_size mem_obj)) \<noteq> CUDA_SUCCESS"
    using that
    by (cases "cuMemAlloc e (mem_size mem_obj)") (simp add: pocl_cuda_alloc_mem_obj_def Let_def)
  have fatal: "fst (pocl_cuda_alloc_mem_obj arm e dev mem_obj host_ptr) = Inl ABORT
          \<or> (flags mem_obj AND CL_MEM_USE_HOST_PTR = 0
                \<and> flags mem_obj AND CL_MEM_ALLOC_HOST_PTR = 0
                \<and> c = Call_cuMemAlloc (mem_size mem_obj))
          \<or> (c = Call_cuMemHostRegister host_ptr (mem_size mem_obj)
                \<and> driver_result e c = CUDA_ERROR_HOST_MEMORY_ALREADY_REGISTERED)"
    if "c \<in> set (snd (pocl_cuda_alloc_mem_obj arm e dev mem_obj host_ptr))"
      "driver_result e c \<noteq> CUDA_SUCCESS"
    using that
    by (auto simp: pocl_cuda_alloc_mem_obj_def Let_def pocl_cuda_abort_on_error_def
          split: if_splits prod.splits sum.splits)
  show ?thesis using recover fatal by blast
qed

theorem alloc_failure_handling_witness:
  "pocl_cuda_alloc_mem_obj False exhausted_env device0 (fresh_mem 0) NULL
     = (Inr (CL_MEM_OBJECT_ALLOCATION_FAILURE, fresh_mem 0),
        [Call_cuCtxSetCurrent 7, Call_cuMemAlloc 64])
   \<and> fst (pocl_cuda_alloc_mem_obj False broken_env device0
            (fresh_mem CL_MEM_ALLOC_HOST_PTR) NULL) = Inl ABORT"
proof -
  have ex: "fst (cuMemAlloc exhausted_env 64) \<noteq> CUDA_SUCCESS"
    by (simp add: exhausted_env_def)
  have br: "driver_result broken_env (Call_cuMemHostAlloc 64) \<noteq> CUDA_SUCCESS"
    by (simp add: broken_env_def)
  have first: "pocl_cuda_alloc_mem_obj False exhausted_env device0 (fresh_mem 0) NULL
     = (Inr (CL_MEM_OBJECT_ALLOCATION_FAILURE, fresh_mem 0),
        [Call_cuCtxSetCurrent 7, Call_cuMemAlloc 64])"
    using alloc_failure_handling [where mem_obj = "fresh_mem 0" and dev = device0
        and e = exhausted_env and arm = False and host_ptr = NULL] ex
    by (simp add: fresh_mem_fields device0_fields)
  have second: "fst (pocl_cuda_alloc_mem_obj False broken_env device0
            (fresh_mem CL_MEM_ALLOC_HOST_PTR) NULL) = Inl ABORT"
    using alloc_failure_handling [where mem_obj = "fresh_mem CL_MEM_ALLOC_HOST_PTR"
        and dev = device0 and e = broken_env and arm = False and host_ptr = NULL
        and c = "Call_cuMemHostAlloc 64"] br alloc_host_alloc_broken
    by (simp add: fresh_mem_fields flag_tests)
  show ?thesis using first second by simp
qed

text \<open>
  The claim as worded fails where the driver reports the host range as registered
  already: the registration did not succeed, and the call still returns success.
\<close>

theorem alloc_already_registered_counterexample:
  "cuMemHostRegister registered_env 0x7000 64 \<noteq> CUDA_SUCCESS
   \<and> pocl_cuda_alloc_mem_obj False registered_env device0 (fresh_mem CL_MEM_USE_HOST_PTR) 0x7000
     = (Inr (CL_SUCCESS, registered_mem),
        [Call_cuCtxSetCurrent 7, Call_cuMemHostRegister 0x7000 64,
         Call_cuMemHostGetDevicePointer 0x7000])"
  by (simp add: alloc_use_host_registered) (simp add: registered_env_def)

text \<open>
  C8. A use-host-pointer buffer is made resident by registering the application's host
  range and looking up its device address; \<^verbatim>\<open>pocl_cuda_free\<close> then passes that
  address to \<^verbatim>\<open>cuMemFree\<close>, the release path of \<^verbatim>\<open>cuMemAlloc\<close>, and the host range
  is never unregistered.
\<close>

theorem free_registered_memory:
  "pocl_cuda_alloc_mem_obj False nominal_env device0 (fresh_mem CL_MEM_USE_HOST_PTR) 0x7000
     = (Inr (CL_SUCCESS, registered_mem),
        [Call_cuCtxSetCurrent 7, Call_cuMemHostRegister 0x7000 64,
         Call_cuMemHostGetDevicePointer 0x7000])
   \<and> pocl_cuda_free device0 registered_mem
     = (registered_mem, [Call_cuCtxSetCurrent 7, Call_cuMemFree 0x107000])"
  by (simp add: alloc_use_host_nominal)
     (simp add: pocl_cuda_free_def registered_mem_def fresh_mem_fields device0_fields
        flag_tests Let_def)

section \<open>Kernel artifact loader: properties\<close>
















end
